theory Spec2Isabelle
  imports Complex_Main "HOL-Library.Monad_Syntax" "HOL-Library.Sublist"
begin

section \<open>JavaScript values\<close>

text \<open>
  The evaluators are TypeScript functions whose parameter types are erased at run time:
  \<^verbatim>\<open>checkConfig\<close> passes them whatever \<^verbatim>\<open>JSON5.parse\<close> returned. The
  embedding therefore works on run-time values. A number is the value of a double:
  a rational, or one of the three special values. A string is a list of characters,
  each standing for one UTF-16 code unit, so that \<open>length\<close> is JavaScript's
  \<^verbatim>\<open>.length\<close>. An object is the list of its own properties, searched from the
  front; parsed documents are plain objects with no accessor and no callable property.
\<close>

datatype jsnum = NaN | PosInf | NegInf | Fin rat

datatype jsval =
    Undefined
  | Null
  | JBool bool
  | JNum jsnum
  | JStr string
  | JArr "jsval list"
  | JObj "(string \<times> jsval) list"

text \<open>
  A thrown exception is the value \<open>None\<close>. The evaluators have no \<^verbatim>\<open>throw\<close> and
  no \<^verbatim>\<open>try\<close> of their own; everything they can raise is a \<^verbatim>\<open>TypeError\<close> of
  the language (a property read on \<^verbatim>\<open>null\<close> or \<^verbatim>\<open>undefined\<close>, a call of
  something that is not a function, an object that cannot be converted to a primitive).
\<close>

text \<open>
  The two conversions between numbers and strings (\<^verbatim>\<open>Number::toString\<close> and
  \<^verbatim>\<open>StringToNumber\<close> of ECMAScript) belong to the language run time and are
  parameters of the embedding.
\<close>

record js_runtime =
  number_to_string :: "jsnum \<Rightarrow> string"
  string_to_number :: "string \<Rightarrow> jsnum"

text \<open>\<^verbatim>\<open>ToBoolean\<close>: what \<^verbatim>\<open>!x\<close>, \<^verbatim>\<open>x && y\<close> and \<^verbatim>\<open>if (x)\<close> test.\<close>

fun truthy :: "jsval \<Rightarrow> bool" where
  "truthy Undefined = False"
| "truthy Null = False"
| "truthy (JBool b) = b"
| "truthy (JNum NaN) = False"
| "truthy (JNum PosInf) = True"
| "truthy (JNum NegInf) = True"
| "truthy (JNum (Fin q)) = (q \<noteq> 0)"
| "truthy (JStr s) = (s \<noteq> [])"
| "truthy (JArr xs) = True"
| "truthy (JObj ps) = True"

fun nullish :: "jsval \<Rightarrow> bool" where
  "nullish Undefined = True"
| "nullish Null = True"
| "nullish v = False"

text \<open>The value of an own property, \<^verbatim>\<open>undefined\<close> when the object has none of that name.\<close>

definition own :: "(string \<times> jsval) list \<Rightarrow> string \<Rightarrow> jsval" where
  "own ps k = (case map_of ps k of None \<Rightarrow> Undefined | Some v \<Rightarrow> v)"

text \<open>
  \<^verbatim>\<open>v.k\<close> on a value that is neither \<^verbatim>\<open>null\<close> nor \<^verbatim>\<open>undefined\<close>, for the
  property names the evaluators read: the field names of the documents and \<^verbatim>\<open>length\<close>.
  None of them is defined by \<^verbatim>\<open>Object.prototype\<close>, and of the prototypes of strings,
  arrays, numbers and booleans only \<^verbatim>\<open>length\<close> is, on strings and arrays.
\<close>

fun field :: "jsval \<Rightarrow> string \<Rightarrow> jsval" where
  "field (JObj ps) k = own ps k"
| "field (JStr s) k = (if k = ''length'' then JNum (Fin (of_nat (length s))) else Undefined)"
| "field (JArr xs) k = (if k = ''length'' then JNum (Fin (of_nat (length xs))) else Undefined)"
| "field v k = Undefined"

text \<open>\<^verbatim>\<open>v.k\<close> in general: a \<^verbatim>\<open>TypeError\<close> on \<^verbatim>\<open>null\<close> and \<^verbatim>\<open>undefined\<close>.\<close>

definition get_prop :: "jsval \<Rightarrow> string \<Rightarrow> jsval option" where
  "get_prop v k = (if nullish v then None else Some (field v k))"

text \<open>
  \<^verbatim>\<open>'k' in v\<close>, for the document keys the code tests: a \<^verbatim>\<open>TypeError\<close> unless
  \<^verbatim>\<open>v\<close> is an object (an array is one, and has none of those keys).
\<close>

fun js_in :: "string \<Rightarrow> jsval \<Rightarrow> bool option" where
  "js_in k (JObj ps) = Some (k \<in> fst ` set ps)"
| "js_in k (JArr xs) = Some False"
| "js_in k v = None"

subsection \<open>String methods\<close>

text \<open>\<^verbatim>\<open>String.prototype.includes\<close>: the needle occurs as a contiguous substring.\<close>

fun includes_str :: "string \<Rightarrow> string \<Rightarrow> bool" where
  "includes_str [] needle = (needle = [])"
| "includes_str (c # cs) needle = (prefix needle (c # cs) \<or> includes_str cs needle)"

text \<open>
  \<^verbatim>\<open>v.includes(s)\<close> with a string argument. On a string it is the substring test, on an
  array \<^verbatim>\<open>Array.prototype.includes\<close> (some element is the string \<^verbatim>\<open>s\<close>); every
  other value has no callable \<^verbatim>\<open>includes\<close>.
\<close>

fun call_includes :: "jsval \<Rightarrow> string \<Rightarrow> bool option" where
  "call_includes (JStr s) needle = Some (includes_str s needle)"
| "call_includes (JArr xs) needle = Some (JStr needle \<in> set xs)"
| "call_includes v needle = None"

text \<open>\<^verbatim>\<open>v.startsWith(s)\<close>: only strings have the method.\<close>

fun call_startsWith :: "jsval \<Rightarrow> string \<Rightarrow> bool option" where
  "call_startsWith (JStr s) p = Some (prefix p s)"
| "call_startsWith v p = None"

text \<open>
  \<^verbatim>\<open>v.replace(/^http:\/\//, '')\<close>: only strings have the method; a leading
  \<^verbatim>\<open>http://\<close> is removed.
\<close>

fun call_replace_http :: "jsval \<Rightarrow> string option" where
  "call_replace_http (JStr s) = Some (if prefix ''http://'' s then drop 7 s else s)"
| "call_replace_http v = None"

subsection \<open>Conversions\<close>

text \<open>Decimal digits of an array index and of \<^verbatim>\<open>Date.now()\<close>.\<close>

definition digit_char :: "nat \<Rightarrow> char" where
  "digit_char d = ''0123456789'' ! d"

fun show_nat :: "nat \<Rightarrow> string" where
  "show_nat n = (if n < 10 then [digit_char n] else show_nat (n div 10) @ [digit_char (n mod 10)])"

definition show_int :: "int \<Rightarrow> string" where
  "show_int i = (if i < 0 then CHR ''-'' # show_nat (nat (- i)) else show_nat (nat i))"

text \<open>
  \<^verbatim>\<open>ToString\<close>, as a template literal and \<^verbatim>\<open>RegExp.prototype.test\<close> apply it. An
  array is joined with commas, \<^verbatim>\<open>null\<close> and \<^verbatim>\<open>undefined\<close> elements giving the
  empty string. A plain object gives \<^verbatim>\<open>[object Object]\<close>, unless it has an own
  property \<^verbatim>\<open>toString\<close>: that value is not callable, the inherited \<^verbatim>\<open>valueOf\<close>
  returns the object itself, and the conversion throws.
\<close>

fun to_string :: "js_runtime \<Rightarrow> jsval \<Rightarrow> string option"
  and join_elements :: "js_runtime \<Rightarrow> jsval list \<Rightarrow> string option" where
  "to_string rt Undefined = Some ''undefined''"
| "to_string rt Null = Some ''null''"
| "to_string rt (JBool b) = Some (if b then ''true'' else ''false'')"
| "to_string rt (JNum n) = Some (number_to_string rt n)"
| "to_string rt (JStr s) = Some s"
| "to_string rt (JArr xs) = join_elements rt xs"
| "to_string rt (JObj ps) =
     (if ''toString'' \<in> fst ` set ps then None else Some ''[object Object]'')"
| "join_elements rt [] = Some []"
| "join_elements rt (x # xs) = do {
     s \<leftarrow> (if nullish x then Some [] else to_string rt x);
     if xs = [] then Some s
     else do { rest \<leftarrow> join_elements rt xs; Some (s @ '','' @ rest) }
   }"

text \<open>\<^verbatim>\<open>n < q\<close> on numbers: false when \<^verbatim>\<open>n\<close> is \<^verbatim>\<open>NaN\<close>.\<close>

fun num_less :: "jsnum \<Rightarrow> rat \<Rightarrow> bool" where
  "num_less NaN q = False"
| "num_less PosInf q = False"
| "num_less NegInf q = True"
| "num_less (Fin p) q = (p < q)"

text \<open>
  \<^verbatim>\<open>v < q\<close> for a number literal \<^verbatim>\<open>q\<close>: \<^verbatim>\<open>v\<close> is converted to a primitive,
  then to a number. A plain object converts to \<^verbatim>\<open>[object Object]\<close>, which is not a
  number, or throws as in \<open>to_string\<close>.
\<close>

fun js_less :: "js_runtime \<Rightarrow> jsval \<Rightarrow> rat \<Rightarrow> bool option" where
  "js_less rt Undefined q = Some False"
| "js_less rt Null q = Some (0 < q)"
| "js_less rt (JBool b) q = Some ((if b then 1 else 0) < q)"
| "js_less rt (JNum n) q = Some (num_less n q)"
| "js_less rt (JStr s) q = Some (num_less (string_to_number rt s) q)"
| "js_less rt (JArr xs) q =
     map_option (\<lambda>s. num_less (string_to_number rt s) q) (join_elements rt xs)"
| "js_less rt (JObj ps) q = (if ''toString'' \<in> fst ` set ps then None else Some False)"

section \<open>Analysis results\<close>

text \<open>
  \<^verbatim>\<open>AnalysisResult\<close> of \<^verbatim>\<open>src/types/index.ts\<close>. Every evaluator starts from two
  empty arrays and appends to them; the model passes the pair along.
\<close>

record AnalysisResult =
  issues :: "string list"
  suggestions :: "string list"

definition no_findings :: AnalysisResult where
  "no_findings = \<lparr>issues = [], suggestions = []\<rparr>"

definition push_issue :: "string \<Rightarrow> AnalysisResult \<Rightarrow> AnalysisResult" where
  "push_issue i r = r\<lparr>issues := issues r @ [i]\<rparr>"

definition push_suggestion :: "string \<Rightarrow> AnalysisResult \<Rightarrow> AnalysisResult" where
  "push_suggestion s r = r\<lparr>suggestions := suggestions r @ [s]\<rparr>"

text \<open>\<^verbatim>\<open>issues.push(i); suggestions.push(s);\<close>\<close>

definition report :: "string \<Rightarrow> string \<Rightarrow> AnalysisResult \<Rightarrow> AnalysisResult" where
  "report i s r = push_suggestion s (push_issue i r)"

section \<open>The config evaluator (src/services/config.ts)\<close>

definition fix_org_id :: string where
  \<open>fix_org_id = ''Add your Turnkey organization ID to the configuration:\<newline>```json\<newline>{\<newline>  "org_id": "your-org-id",\<newline>  ...\<newline>}\<newline>```''\<close>

definition fix_wallet_id :: string where
  \<open>fix_wallet_id = ''Add your Turnkey wallet ID to the configuration:\<newline>```json\<newline>{\<newline>  "wallet_id": "your-wallet-id",\<newline>  ...\<newline>}\<newline>```''\<close>

definition fix_api_public_key :: string where
  \<open>fix_api_public_key = ''Add your Turnkey API public key to the configuration:\<newline>```json\<newline>{\<newline>  "api_public_key": "your-api-public-key",\<newline>  ...\<newline>}\<newline>```''\<close>

definition fix_api_private_key :: string where
  \<open>fix_api_private_key = ''Add your Turnkey API private key to the configuration. For security, consider using environment variables:\<newline>```json\<newline>{\<newline>  "api_private_key": "${TURNKEY_API_PRIVATE_KEY}",\<newline>  ...\<newline>}\<newline>```''\<close>

definition fix_private_key_short :: string where
  \<open>fix_private_key_short = ''Ensure your API private key is correctly formatted. For security, consider using environment variables:\<newline>```json\<newline>{\<newline>  "api_private_key": "${TURNKEY_API_PRIVATE_KEY}",\<newline>  ...\<newline>}\<newline>```''\<close>

definition fix_base_url :: string where
  \<open>fix_base_url = ''Add the Turnkey API base URL to the configuration:\<newline>```json\<newline>{\<newline>  "base_url": "https://api.turnkey.com",\<newline>  ...\<newline>}\<newline>```''\<close>

definition fix_https :: "string \<Rightarrow> string" where
  \<open>fix_https stripped = ''Update the base URL to use HTTPS:\<newline>```json\<newline>{\<newline>  "base_url": "https://'' @ stripped @ ''",\<newline>  ...\<newline>}\<newline>```''\<close>

definition fix_public_key_format :: string where
  \<open>fix_public_key_format = ''Ensure your API public key starts with "TK" and is correctly formatted according to Turnkey documentation''\<close>

text \<open>Lines 13-16: \<^verbatim>\<open>if (!config.org_id)\<close>.\<close>

definition config_org_id :: "jsval \<Rightarrow> AnalysisResult \<Rightarrow> AnalysisResult option" where
  "config_org_id config r = do {
     org_id \<leftarrow> get_prop config ''org_id'';
     Some (if \<not> truthy org_id then report ''Missing organization ID (org_id)'' fix_org_id r
           else r)
   }"

text \<open>Lines 18-21: \<^verbatim>\<open>if (!config.wallet_id)\<close>.\<close>

definition config_wallet_id :: "jsval \<Rightarrow> AnalysisResult \<Rightarrow> AnalysisResult option" where
  "config_wallet_id config r = do {
     wallet_id \<leftarrow> get_prop config ''wallet_id'';
     Some (if \<not> truthy wallet_id then report ''Missing wallet ID (wallet_id)'' fix_wallet_id r
           else r)
   }"

text \<open>Lines 24-27: \<^verbatim>\<open>if (!config.api_public_key)\<close>.\<close>

definition config_api_public_key :: "jsval \<Rightarrow> AnalysisResult \<Rightarrow> AnalysisResult option" where
  "config_api_public_key config r = do {
     public_key \<leftarrow> get_prop config ''api_public_key'';
     Some (if \<not> truthy public_key
           then report ''Missing API public key (api_public_key)'' fix_api_public_key r
           else r)
   }"

text \<open>
  Lines 29-35. In the \<^verbatim>\<open>else if\<close>, \<^verbatim>\<open>.includes('$')\<close> is called only when the
  length comparison holds (\<^verbatim>\<open>&&\<close> evaluates its right side only then).
\<close>

definition config_api_private_key ::
  "js_runtime \<Rightarrow> jsval \<Rightarrow> AnalysisResult \<Rightarrow> AnalysisResult option" where
  "config_api_private_key rt config r = do {
     private_key \<leftarrow> get_prop config ''api_private_key'';
     if \<not> truthy private_key
     then Some (report ''Missing API private key (api_private_key)'' fix_api_private_key r)
     else do {
       len \<leftarrow> get_prop private_key ''length'';
       short \<leftarrow> js_less rt len 20;
       bad \<leftarrow> (if short then map_option Not (call_includes private_key ''$'') else Some False);
       Some (if bad
             then report ''API private key appears to be invalid or too short''
                    fix_private_key_short r
             else r)
     }
   }"

text \<open>Lines 38-44.\<close>

definition config_base_url :: "jsval \<Rightarrow> AnalysisResult \<Rightarrow> AnalysisResult option" where
  "config_base_url config r = do {
     base_url \<leftarrow> get_prop config ''base_url'';
     if \<not> truthy base_url
     then Some (report ''Missing base URL (base_url)'' fix_base_url r)
     else do {
       https \<leftarrow> call_startsWith base_url ''https://'';
       if \<not> https
       then do {
         stripped \<leftarrow> call_replace_http base_url;
         Some (report ''Base URL should use HTTPS for security'' (fix_https stripped) r)
       }
       else Some r
     }
   }"

text \<open>
  Lines 47-50: \<^verbatim>\<open>a && b && (!a.includes('TK') || a.length < 10)\<close>. The length is read
  only when \<^verbatim>\<open>includes\<close> returned true, so on a string or an array, where it is a
  number.
\<close>

definition config_key_format ::
  "js_runtime \<Rightarrow> jsval \<Rightarrow> AnalysisResult \<Rightarrow> AnalysisResult option" where
  "config_key_format rt config r = do {
     public_key \<leftarrow> get_prop config ''api_public_key'';
     private_key \<leftarrow> (if truthy public_key then get_prop config ''api_private_key''
                    else Some Undefined);
     bad \<leftarrow> (if truthy public_key \<and> truthy private_key
            then do {
              has_tk \<leftarrow> call_includes public_key ''TK'';
              if \<not> has_tk then Some True
              else do { len \<leftarrow> get_prop public_key ''length''; js_less rt len 10 }
            }
            else Some False);
     Some (if bad
           then report ''API public key format appears invalid (might cause 401 errors)''
                  fix_public_key_format r
           else r)
   }"

text \<open>\<^verbatim>\<open>analyzeConfig\<close>: the six statements in order, none skipped.\<close>

definition analyzeConfig :: "js_runtime \<Rightarrow> jsval \<Rightarrow> AnalysisResult option" where
  "analyzeConfig rt config = do {
     r \<leftarrow> config_org_id config no_findings;
     r \<leftarrow> config_wallet_id config r;
     r \<leftarrow> config_api_public_key config r;
     r \<leftarrow> config_api_private_key rt config r;
     r \<leftarrow> config_base_url config r;
     config_key_format rt config r
   }"

section \<open>The policy evaluator (src/services/policy.ts)\<close>

subsection \<open>Array methods\<close>

text \<open>
  \<^verbatim>\<open>v.forEach((x, index) => ...)\<close>: only arrays have the method. The callback runs on
  the elements in order with their indices; an exception in it ends the loop.
\<close>

fun for_each_from ::
  "(nat \<Rightarrow> jsval \<Rightarrow> 'a \<Rightarrow> 'a option) \<Rightarrow> nat \<Rightarrow> jsval list \<Rightarrow> 'a \<Rightarrow> 'a option" where
  "for_each_from f index [] r = Some r"
| "for_each_from f index (x # xs) r = do {
     r' \<leftarrow> f index x r;
     for_each_from f (Suc index) xs r'
   }"

fun call_forEach :: "jsval \<Rightarrow> (nat \<Rightarrow> jsval \<Rightarrow> 'a \<Rightarrow> 'a option) \<Rightarrow> 'a \<Rightarrow> 'a option" where
  "call_forEach (JArr xs) f r = for_each_from f 0 xs r"
| "call_forEach v f r = None"

text \<open>
  The callback of \<^verbatim>\<open>find\<close> at line 85:
  \<^verbatim>\<open>activity.type === 'SIGN_WITH_INTENT' || activity.type === 'SIGN_TRANSACTION'\<close>.
\<close>

definition is_sign_activity :: "jsval \<Rightarrow> bool option" where
  "is_sign_activity activity = do {
     ty \<leftarrow> get_prop activity ''type'';
     Some (ty = JStr ''SIGN_WITH_INTENT'' \<or> ty = JStr ''SIGN_TRANSACTION'')
   }"

text \<open>
  \<^verbatim>\<open>v.find(p)\<close>: only arrays have the method. It returns the first element on which
  the callback holds, \<^verbatim>\<open>undefined\<close> when there is none.
\<close>

fun find_first :: "(jsval \<Rightarrow> bool option) \<Rightarrow> jsval list \<Rightarrow> jsval option" where
  "find_first p [] = Some Undefined"
| "find_first p (x # xs) = do {
     hit \<leftarrow> p x;
     if hit then Some x else find_first p xs
   }"

fun call_find :: "jsval \<Rightarrow> (jsval \<Rightarrow> bool option) \<Rightarrow> jsval option" where
  "call_find (JArr xs) p = find_first p xs"
| "call_find v p = None"

text \<open>\<^verbatim>\<open>!v || v.length === 0\<close>\<close>

definition missing_or_empty :: "jsval \<Rightarrow> bool option" where
  "missing_or_empty v =
     (if \<not> truthy v then Some True
      else do { len \<leftarrow> get_prop v ''length''; Some (len = JNum (Fin 0)) })"

subsection \<open>The structured variant\<close>

definition issue_key_id :: "string \<Rightarrow> string" where
  \<open>issue_key_id index = ''Signing key at index '' @ index @ '' is missing key_id''\<close>

definition issue_public_key :: "string \<Rightarrow> string" where
  \<open>issue_public_key index = ''Signing key at index '' @ index @ '' is missing public_key''\<close>

definition issue_activity_type :: "string \<Rightarrow> string" where
  \<open>issue_activity_type index = ''Allowed activity at index '' @ index @ '' is missing type''\<close>

definition issue_activity_resources :: "string \<Rightarrow> string" where
  \<open>issue_activity_resources index = ''Allowed activity at index '' @ index @ '' has no resources defined''\<close>

definition issue_activity_placeholder :: "string \<Rightarrow> string" where
  \<open>issue_activity_placeholder index = ''Solana policy condition at index '' @ index @ '' contains placeholder \'<SENDER_ADDRESS>'' @ [CHR 0x27]\<close>

definition issue_activity_quantifier :: "string \<Rightarrow> string" where
  \<open>issue_activity_quantifier index = ''Solana policy condition at index '' @ index @ '' might be missing quantifier (all/any)''\<close>

definition fix_required_approvals :: "string" where
  \<open>fix_required_approvals = ''Add the required_approvals field to specify how many approvals are needed:\<newline>```json\<newline>{\<newline>  "required_approvals": 1,\<newline>  ...\<newline>}\<newline>```''\<close>

definition fix_required_approvals_low :: "string" where
  \<open>fix_required_approvals_low = ''Update required_approvals to be at least 1:\<newline>```json\<newline>{\<newline>  "required_approvals": 1,\<newline>  ...\<newline>}\<newline>```''\<close>

definition fix_signing_keys :: "string" where
  \<open>fix_signing_keys = ''Add at least one signing key to the policy:\<newline>```json\<newline>{\<newline>  "signing_keys": [\<newline>    {\<newline>      "key_id": "your-key-id",\<newline>      "name": "Key Name",\<newline>      "public_key": "your-public-key",\<newline>      "algorithm": "ECDSA_SECP256K1"\<newline>    }\<newline>  ],\<newline>  ...\<newline>}\<newline>```''\<close>

definition fix_key_id :: "string \<Rightarrow> string" where
  \<open>fix_key_id index = ''Add key_id to the signing key at index '' @ index @ '':\<newline>```json\<newline>"signing_keys": [\<newline>  {\<newline>    "key_id": "your-key-id",\<newline>    ...\<newline>  }\<newline>]\<newline>```''\<close>

definition fix_public_key :: "string \<Rightarrow> string" where
  \<open>fix_public_key index = ''Add public_key to the signing key at index '' @ index @ '':\<newline>```json\<newline>"signing_keys": [\<newline>  {\<newline>    "public_key": "your-public-key",\<newline>    ...\<newline>  }\<newline>]\<newline>```''\<close>

definition fix_allowed_activities :: "string" where
  \<open>fix_allowed_activities = ''Add allowed_activities to specify what operations are permitted:\<newline>```json\<newline>{\<newline>  "allowed_activities": [\<newline>    {\<newline>      "type": "SIGN_WITH_INTENT",\<newline>      "resources": ["*"]\<newline>    }\<newline>  ],\<newline>  ...\<newline>}\<newline>```''\<close>

definition fix_activity_type :: "string \<Rightarrow> string" where
  \<open>fix_activity_type index = ''Add type to the allowed activity at index '' @ index @ '':\<newline>```json\<newline>"allowed_activities": [\<newline>  {\<newline>    "type": "SIGN_WITH_INTENT",\<newline>    ...\<newline>  }\<newline>]\<newline>```''\<close>

definition fix_activity_resources :: "string \<Rightarrow> string" where
  \<open>fix_activity_resources index = ''Add resources to the allowed activity at index '' @ index @ '':\<newline>```json\<newline>"allowed_activities": [\<newline>  {\<newline>    "resources": ["*"],\<newline>    ...\<newline>  }\<newline>]\<newline>```''\<close>

definition fix_activity_placeholder :: "string" where
  \<open>fix_activity_placeholder = ''Replace \'<SENDER_ADDRESS>\' with an actual Solana address in the condition:\<newline>```json\<newline>"condition": "solana.tx.transfers.all(transfer, transfer.from == \'actual_solana_address\')"\<newline>```''\<close>

definition fix_activity_quantifier :: "string" where
  \<open>fix_activity_quantifier = ''Consider using \'all\' or \'any\' quantifier in your Solana condition:\<newline>```json\<newline>"condition": "solana.tx.transfers.all(transfer, transfer.from == \'<ADDRESS>\')"\<newline>```''\<close>

definition fix_intent_parameters :: "string" where
  \<open>fix_intent_parameters = ''Add parameters to the SIGN_WITH_INTENT activity:\<newline>```json\<newline>{\<newline>  "type": "SIGN_WITH_INTENT",\<newline>  "parameters": {\<newline>    "intent_action": "eth_signTypedData_v4",\<newline>    "intent_version": "1"\<newline>  },\<newline>  ...\<newline>}\<newline>```''\<close>

definition fix_intent_action :: "string" where
  \<open>fix_intent_action = ''Add intent_action parameter to the SIGN_WITH_INTENT activity:\<newline>```json\<newline>"parameters": {\<newline>  "intent_action": "eth_signTypedData_v4",\<newline>  ...\<newline>}\<newline>```''\<close>

text \<open>Lines 18-24.\<close>

definition policy_required_approvals ::
  "js_runtime \<Rightarrow> jsval \<Rightarrow> AnalysisResult \<Rightarrow> AnalysisResult option" where
  "policy_required_approvals rt policy r = do {
     required_approvals \<leftarrow> get_prop policy ''required_approvals'';
     if required_approvals = Undefined
     then Some (report ''Missing required_approvals field'' fix_required_approvals r)
     else do {
       low \<leftarrow> js_less rt required_approvals 1;
       Some (if low
             then report ''required_approvals must be at least 1'' fix_required_approvals_low r
             else r)
     }
   }"

text \<open>Lines 32-42: the callback of \<^verbatim>\<open>signing_keys.forEach\<close>.\<close>

definition signing_key_check :: "nat \<Rightarrow> jsval \<Rightarrow> AnalysisResult \<Rightarrow> AnalysisResult option" where
  "signing_key_check index key r = do {
     key_id \<leftarrow> get_prop key ''key_id'';
     r \<leftarrow> Some (if \<not> truthy key_id
               then report (issue_key_id (show_nat index))
                      (fix_key_id (show_nat index)) r
               else r);
     public_key \<leftarrow> get_prop key ''public_key'';
     Some (if \<not> truthy public_key
           then report (issue_public_key (show_nat index))
                  (fix_public_key (show_nat index)) r
           else r)
   }"

text \<open>Lines 27-43.\<close>

definition policy_signing_keys :: "jsval \<Rightarrow> AnalysisResult \<Rightarrow> AnalysisResult option" where
  "policy_signing_keys policy r = do {
     signing_keys \<leftarrow> get_prop policy ''signing_keys'';
     none \<leftarrow> missing_or_empty signing_keys;
     if none then Some (report ''No signing keys defined in the policy'' fix_signing_keys r)
     else call_forEach signing_keys signing_key_check r
   }"

text \<open>
  Lines 63-80, inside the callback of \<^verbatim>\<open>allowed_activities.forEach\<close>: the checks
  of \<^verbatim>\<open>activity.parameters.condition\<close>.
\<close>

definition activity_condition_check ::
  "nat \<Rightarrow> jsval \<Rightarrow> AnalysisResult \<Rightarrow> AnalysisResult option" where
  \<open>activity_condition_check index condition r = do {
     placeholder \<leftarrow> call_includes condition ''<SENDER_ADDRESS>'';
     r \<leftarrow> Some (if placeholder
               then report (issue_activity_placeholder (show_nat index))
                      fix_activity_placeholder r
               else r);
     transfers \<leftarrow> call_includes condition ''solana.tx.transfers'';
     if transfers then do {
       has_all \<leftarrow> call_includes condition ''.all('';
       has_any \<leftarrow> (if has_all then Some False else call_includes condition ''.any('');
       Some (if \<not> has_all \<and> \<not> has_any
             then report (issue_activity_quantifier (show_nat index))
                    fix_activity_quantifier r
             else r)
     }
     else Some r
   }\<close>

text \<open>Lines 51-81: the callback of \<^verbatim>\<open>allowed_activities.forEach\<close>.\<close>

definition activity_check :: "nat \<Rightarrow> jsval \<Rightarrow> AnalysisResult \<Rightarrow> AnalysisResult option" where
  "activity_check index activity r = do {
     ty \<leftarrow> get_prop activity ''type'';
     r \<leftarrow> Some (if \<not> truthy ty
               then report (issue_activity_type (show_nat index))
                      (fix_activity_type (show_nat index)) r
               else r);
     resources \<leftarrow> get_prop activity ''resources'';
     none \<leftarrow> missing_or_empty resources;
     r \<leftarrow> Some (if none
               then report (issue_activity_resources (show_nat index))
                      (fix_activity_resources (show_nat index)) r
               else r);
     parameters \<leftarrow> get_prop activity ''parameters'';
     condition \<leftarrow> (if truthy parameters then get_prop parameters ''condition''
                   else Some Undefined);
     if truthy parameters \<and> truthy condition
     then activity_condition_check index condition r
     else Some r
   }"

text \<open>Lines 46-82.\<close>

definition policy_allowed_activities :: "jsval \<Rightarrow> AnalysisResult \<Rightarrow> AnalysisResult option" where
  "policy_allowed_activities policy r = do {
     allowed_activities \<leftarrow> get_prop policy ''allowed_activities'';
     none \<leftarrow> missing_or_empty allowed_activities;
     if none
     then Some (report ''No allowed_activities defined in the policy'' fix_allowed_activities r)
     else call_forEach allowed_activities activity_check r
   }"

text \<open>
  Lines 85-97. \<^verbatim>\<open>allowed_activities?.find(...)\<close> is \<^verbatim>\<open>undefined\<close> when
  \<^verbatim>\<open>allowed_activities\<close> is \<^verbatim>\<open>null\<close> or \<^verbatim>\<open>undefined\<close>, and calls
  \<^verbatim>\<open>find\<close> on every other value.
\<close>

definition policy_sign_with_intent :: "jsval \<Rightarrow> AnalysisResult \<Rightarrow> AnalysisResult option" where
  "policy_sign_with_intent policy r = do {
     allowed_activities \<leftarrow> get_prop policy ''allowed_activities'';
     signWithIntentActivity \<leftarrow>
       (if nullish allowed_activities then Some Undefined
        else call_find allowed_activities is_sign_activity);
     ty \<leftarrow> (if truthy signWithIntentActivity then get_prop signWithIntentActivity ''type''
            else Some Undefined);
     if truthy signWithIntentActivity \<and> ty = JStr ''SIGN_WITH_INTENT''
     then do {
       parameters \<leftarrow> get_prop signWithIntentActivity ''parameters'';
       if \<not> truthy parameters
       then Some (report ''SIGN_WITH_INTENT activity is missing parameters''
                    fix_intent_parameters r)
       else do {
         intent_action \<leftarrow> get_prop parameters ''intent_action'';
         Some (if \<not> truthy intent_action
               then report ''SIGN_WITH_INTENT activity is missing intent_action parameter''
                      fix_intent_action r
               else r)
       }
     }
     else Some r
   }"

subsection \<open>The simplified variant\<close>

definition issue_effect_value :: "string \<Rightarrow> string" where
  \<open>issue_effect_value shown = ''Invalid effect value: '' @ shown\<close>

definition fix_policyName :: "string" where
  \<open>fix_policyName = ''Add a descriptive policy name:\<newline>```json\<newline>{\<newline>  "policyName": "Your Policy Name",\<newline>  ...\<newline>}\<newline>```''\<close>

definition fix_effect :: "string" where
  \<open>fix_effect = ''Add the effect field (EFFECT_ALLOW or EFFECT_DENY):\<newline>```json\<newline>{\<newline>  "effect": "EFFECT_ALLOW",\<newline>  ...\<newline>}\<newline>```''\<close>

definition fix_effect_value :: "string" where
  \<open>fix_effect_value = ''Use either "EFFECT_ALLOW" or "EFFECT_DENY" for the effect field''\<close>

definition fix_condition :: "string" where
  \<open>fix_condition = ''Add a condition expression:\<newline>```json\<newline>{\<newline>  "condition": "your.condition.expression",\<newline>  ...\<newline>}\<newline>```''\<close>

definition fix_condition_placeholder :: "string" where
  \<open>fix_condition_placeholder = ''Replace <SENDER_ADDRESS> with an actual blockchain address''\<close>

definition fix_condition_quantifier :: "string" where
  \<open>fix_condition_quantifier = ''Consider using "all" or "any" quantifier in your Solana condition:\<newline>```json\<newline>{\<newline>  "condition": "solana.tx.transfers.all(transfer, transfer.from == \'your_address\')",\<newline>  ...\<newline>}\<newline>```''\<close>

definition policy_summary :: "string \<Rightarrow> string \<Rightarrow> string" where
  \<open>policy_summary verb condition = ''Your policy looks valid! Here\'s how to use it with Turnkey:\<newline>\<newline>1. This policy will '' @ verb @ '' transactions that match the condition:\<newline>   `'' @ condition @ ''`\<newline>\<newline>2. For Solana conditions, make sure to replace any placeholders with actual addresses\<newline>\<newline>3. You can apply this policy to your Turnkey organization or specific wallets''\<close>

text \<open>Lines 112-115.\<close>

definition simplified_policyName :: "jsval \<Rightarrow> AnalysisResult \<Rightarrow> AnalysisResult option" where
  "simplified_policyName policy r = do {
     policyName \<leftarrow> get_prop policy ''policyName'';
     Some (if \<not> truthy policyName then report ''Missing policyName field'' fix_policyName r
           else r)
   }"

text \<open>Lines 117-123. The template literal converts \<^verbatim>\<open>policy.effect\<close> to a string.\<close>

definition simplified_effect ::
  "js_runtime \<Rightarrow> jsval \<Rightarrow> AnalysisResult \<Rightarrow> AnalysisResult option" where
  "simplified_effect rt policy r = do {
     effect \<leftarrow> get_prop policy ''effect'';
     if \<not> truthy effect then Some (report ''Missing effect field'' fix_effect r)
     else if effect \<noteq> JStr ''EFFECT_ALLOW'' \<and> effect \<noteq> JStr ''EFFECT_DENY''
     then do {
       shown \<leftarrow> to_string rt effect;
       Some (report (issue_effect_value shown) fix_effect_value r)
     }
     else Some r
   }"

text \<open>Lines 125-143.\<close>

definition simplified_condition :: "jsval \<Rightarrow> AnalysisResult \<Rightarrow> AnalysisResult option" where
  "simplified_condition policy r = do {
     condition \<leftarrow> get_prop policy ''condition'';
     if \<not> truthy condition then Some (report ''Missing condition field'' fix_condition r)
     else do {
       placeholder \<leftarrow> call_includes condition ''<SENDER_ADDRESS>'';
       r \<leftarrow> Some (if placeholder
                 then report ''Condition contains placeholder <SENDER_ADDRESS>''
                        fix_condition_placeholder r
                 else r);
       transfers \<leftarrow> call_includes condition ''solana.tx.transfers'';
       if transfers then do {
         has_all \<leftarrow> call_includes condition ''.all('';
         has_any \<leftarrow> (if has_all then Some False else call_includes condition ''.any('');
         Some (if \<not> has_all \<and> \<not> has_any
               then report ''Solana condition might be missing quantifier (all/any)''
                      fix_condition_quantifier r
               else r)
       }
       else Some r
     }
   }"

text \<open>
  Lines 146-154: with no issue, one more suggestion and no issue. The concatenation
  converts \<^verbatim>\<open>policy.condition\<close> to a string.
\<close>

definition simplified_summary ::
  "js_runtime \<Rightarrow> jsval \<Rightarrow> AnalysisResult \<Rightarrow> AnalysisResult option" where
  "simplified_summary rt policy r =
     (if length (issues r) = 0
      then do {
        effect \<leftarrow> get_prop policy ''effect'';
        condition \<leftarrow> get_prop policy ''condition'';
        shown \<leftarrow> to_string rt condition;
        Some (push_suggestion
                (policy_summary (if effect = JStr ''EFFECT_ALLOW'' then ''allow'' else ''deny'')
                   shown) r)
      }
      else Some r)"

definition analyzeSimplifiedPolicy :: "js_runtime \<Rightarrow> jsval \<Rightarrow> AnalysisResult option" where
  "analyzeSimplifiedPolicy rt policy = do {
     r \<leftarrow> simplified_policyName policy no_findings;
     r \<leftarrow> simplified_effect rt policy r;
     r \<leftarrow> simplified_condition policy r;
     simplified_summary rt policy r
   }"

subsection \<open>The entry point\<close>

text \<open>
  Line 13:
  \<^verbatim>\<open>'policyName' in policy && 'effect' in policy && 'condition' in policy\<close>.
\<close>

definition is_simplified :: "jsval \<Rightarrow> bool option" where
  "is_simplified policy = do {
     a \<leftarrow> js_in ''policyName'' policy;
     b \<leftarrow> (if a then js_in ''effect'' policy else Some False);
     if b then js_in ''condition'' policy else Some False
   }"

text \<open>
  \<^verbatim>\<open>analyzePolicy\<close>: the simplified shape returns at line 14; otherwise the four
  statements of the structured variant run in order.
\<close>

definition analyzePolicy :: "js_runtime \<Rightarrow> jsval \<Rightarrow> AnalysisResult option" where
  "analyzePolicy rt policy = do {
     simplified \<leftarrow> is_simplified policy;
     if simplified then analyzeSimplifiedPolicy rt policy
     else do {
       r \<leftarrow> policy_required_approvals rt policy no_findings;
       r \<leftarrow> policy_signing_keys policy r;
       r \<leftarrow> policy_allowed_activities policy r;
       policy_sign_with_intent policy r
     }
   }"

section \<open>The transaction evaluator (src/services/transaction.ts)\<close>

definition issue_type_value :: "string \<Rightarrow> string" where
  \<open>issue_type_value shown = ''Unsupported transaction type: '' @ shown\<close>

definition issue_blockchain_type :: "string \<Rightarrow> string" where
  \<open>issue_blockchain_type shown = ''Unsupported blockchain type: '' @ shown\<close>

definition fix_organizationId :: "string" where
  \<open>fix_organizationId = ''Add your Turnkey organization ID to the request:\<newline>```json\<newline>{\<newline>  "organizationId": "your-org-id",\<newline>  ...\<newline>}\<newline>```''\<close>

definition fix_type :: "string" where
  \<open>fix_type = ''Add the activity type to the request:\<newline>```json\<newline>{\<newline>  "type": "ACTIVITY_TYPE_SIGN_TRANSACTION_V2",\<newline>  ...\<newline>}\<newline>```''\<close>

definition fix_type_value :: "string" where
  \<open>fix_type_value = ''Use "ACTIVITY_TYPE_SIGN_TRANSACTION_V2" for the type field:\<newline>```json\<newline>{\<newline>  "type": "ACTIVITY_TYPE_SIGN_TRANSACTION_V2",\<newline>  ...\<newline>}\<newline>```''\<close>

definition fix_timestampMs :: "string \<Rightarrow> string" where
  \<open>fix_timestampMs millis = ''Add a current timestamp in milliseconds:\<newline>```json\<newline>{\<newline>  "timestampMs": "'' @ millis @ ''",\<newline>  ...\<newline>}\<newline>```''\<close>

definition fix_parameters :: "string" where
  \<open>fix_parameters = ''Add the parameters object with transaction details:\<newline>```json\<newline>{\<newline>  "parameters": {\<newline>    "type": "TRANSACTION_TYPE_ETHEREUM",\<newline>    "signWith": "your-ethereum-address",\<newline>    "unsignedTransaction": "your-unsigned-transaction-hex"\<newline>  },\<newline>  ...\<newline>}\<newline>```''\<close>

definition fix_parameters_type :: "string" where
  \<open>fix_parameters_type = ''Add the transaction type to parameters:\<newline>```json\<newline>"parameters": {\<newline>  "type": "TRANSACTION_TYPE_ETHEREUM",\<newline>  ...\<newline>}\<newline>```''\<close>

definition fix_blockchain_type :: "string \<Rightarrow> string" where
  \<open>fix_blockchain_type joined = ''Use one of the supported blockchain types: '' @ joined\<close>

definition fix_signWith :: "string" where
  \<open>fix_signWith = ''Add the address to sign with:\<newline>```json\<newline>"parameters": {\<newline>  "signWith": "your-blockchain-address",\<newline>  ...\<newline>}\<newline>```''\<close>

definition fix_ethereum_address :: "string" where
  \<open>fix_ethereum_address = ''Ethereum addresses should start with "0x" and be 42 characters long''\<close>

definition fix_unsignedTransaction :: "string" where
  \<open>fix_unsignedTransaction = ''Add the unsigned transaction hex:\<newline>```json\<newline>"parameters": {\<newline>  "unsignedTransaction": "your-unsigned-transaction-hex",\<newline>  ...\<newline>}\<newline>```''\<close>

definition fix_transaction_hex :: "string" where
  \<open>fix_transaction_hex = ''Transaction hex should contain only hexadecimal characters, optionally starting with "0x"''\<close>

definition next_steps :: "string" where
  \<open>next_steps = ''Your transaction signing request looks valid! Here\'s how to use it with Turnkey:\<newline>\<newline>1. Use the Turnkey API to submit this request:\<newline>```bash\<newline>turnkey request --path /public/v1/submit/sign_transaction --body \'<your-json-content>\' --key-name your-key-name\<newline>```\<newline>\<newline>2. From the response, extract the "signedTransaction" value:\<newline>```json\<newline>{\<newline>  "activity": {\<newline>    "result": {\<newline>      "signTransactionResult": {\<newline>        "signedTransaction": "0x..." // This is what you need\<newline>      }\<newline>    }\<newline>  }\<newline>}\<newline>```\<newline>\<newline>3. Broadcast the signed transaction to the blockchain network using etherscan:\<newline>https://etherscan.io/tx/0x...\<newline>\<newline>4. Track your transaction on a blockchain explorer like Etherscan''\<close>

text \<open>Lines 13-16.\<close>

definition transaction_organizationId ::
  "jsval \<Rightarrow> AnalysisResult \<Rightarrow> AnalysisResult option" where
  "transaction_organizationId transaction r = do {
     organizationId \<leftarrow> get_prop transaction ''organizationId'';
     Some (if \<not> truthy organizationId
           then report ''Missing organizationId field'' fix_organizationId r
           else r)
   }"

text \<open>Lines 18-24. The template literal converts \<^verbatim>\<open>transaction.type\<close> to a string.\<close>

definition transaction_type ::
  "js_runtime \<Rightarrow> jsval \<Rightarrow> AnalysisResult \<Rightarrow> AnalysisResult option" where
  "transaction_type rt transaction r = do {
     ty \<leftarrow> get_prop transaction ''type'';
     if \<not> truthy ty then Some (report ''Missing type field'' fix_type r)
     else if ty \<noteq> JStr ''ACTIVITY_TYPE_SIGN_TRANSACTION_V2''
     then do {
       shown \<leftarrow> to_string rt ty;
       Some (report (issue_type_value shown) fix_type_value r)
     }
     else Some r
   }"

text \<open>
  Lines 26-29. \<open>now\<close> is what \<^verbatim>\<open>Date.now()\<close> returns at that moment: the
  milliseconds since the epoch, an integer.
\<close>

definition transaction_timestampMs ::
  "int \<Rightarrow> jsval \<Rightarrow> AnalysisResult \<Rightarrow> AnalysisResult option" where
  "transaction_timestampMs now transaction r = do {
     timestampMs \<leftarrow> get_prop transaction ''timestampMs'';
     Some (if \<not> truthy timestampMs
           then report ''Missing timestampMs field'' (fix_timestampMs (show_int now)) r
           else r)
   }"

text \<open>Line 42, and \<^verbatim>\<open>supportedTypes.join(', ')\<close>.\<close>

definition supportedTypes :: "string list" where
  "supportedTypes =
     [''TRANSACTION_TYPE_ETHEREUM'', ''TRANSACTION_TYPE_SOLANA'', ''TRANSACTION_TYPE_BITCOIN'']"

fun join_with :: "string \<Rightarrow> string list \<Rightarrow> string" where
  "join_with sep [] = []"
| "join_with sep [x] = x"
| "join_with sep (x # y # ys) = x @ sep @ join_with sep (y # ys)"

text \<open>
  Lines 37-48. \<^verbatim>\<open>supportedTypes.includes(v)\<close> holds when \<^verbatim>\<open>v\<close> is one of the
  three strings.
\<close>

definition parameters_type ::
  "js_runtime \<Rightarrow> jsval \<Rightarrow> AnalysisResult \<Rightarrow> AnalysisResult option" where
  "parameters_type rt transaction r = do {
     parameters \<leftarrow> get_prop transaction ''parameters'';
     ty \<leftarrow> get_prop parameters ''type'';
     if \<not> truthy ty
     then Some (report ''Missing transaction type in parameters'' fix_parameters_type r)
     else if ty \<notin> set (map JStr supportedTypes)
     then do {
       shown \<leftarrow> to_string rt ty;
       Some (report (issue_blockchain_type shown)
               (fix_blockchain_type (join_with '', '' supportedTypes)) r)
     }
     else Some r
   }"

text \<open>
  Lines 50-61: \<^verbatim>\<open>!signWith.startsWith('0x') || signWith.length !== 42\<close>, for the
  Ethereum type only.
\<close>

definition parameters_signWith :: "jsval \<Rightarrow> AnalysisResult \<Rightarrow> AnalysisResult option" where
  "parameters_signWith transaction r = do {
     parameters \<leftarrow> get_prop transaction ''parameters'';
     signWith \<leftarrow> get_prop parameters ''signWith'';
     if \<not> truthy signWith
     then Some (report ''Missing signWith address in parameters'' fix_signWith r)
     else do {
       ty \<leftarrow> get_prop parameters ''type'';
       if ty = JStr ''TRANSACTION_TYPE_ETHEREUM''
       then do {
         starts \<leftarrow> call_startsWith signWith ''0x'';
         bad \<leftarrow> (if \<not> starts then Some True
                else do { len \<leftarrow> get_prop signWith ''length''; Some (len \<noteq> JNum (Fin 42)) });
         Some (if bad then report ''Invalid Ethereum address format'' fix_ethereum_address r
               else r)
       }
       else Some r
     }
   }"

text \<open>
  The two regular expressions of lines 69-70, both with the flag \<^verbatim>\<open>i\<close>:
  \<^verbatim>\<open>/^[0-9a-f]+$/i\<close> and \<^verbatim>\<open>/^0x[0-9a-f]+$/i\<close>.
\<close>

definition is_hex_digit :: "char \<Rightarrow> bool" where
  "is_hex_digit c = (c \<in> set ''0123456789abcdefABCDEF'')"

definition matches_hex :: "string \<Rightarrow> bool" where
  "matches_hex s = (s \<noteq> [] \<and> list_all is_hex_digit s)"

fun matches_0x_hex :: "string \<Rightarrow> bool" where
  "matches_0x_hex (a # b # rest) =
     (a = CHR ''0'' \<and> (b = CHR ''x'' \<or> b = CHR ''X'') \<and> matches_hex rest)"
| "matches_0x_hex s = False"

text \<open>Lines 64-74. \<^verbatim>\<open>test\<close> converts its argument to a string.\<close>

definition parameters_unsignedTransaction ::
  "js_runtime \<Rightarrow> jsval \<Rightarrow> AnalysisResult \<Rightarrow> AnalysisResult option" where
  "parameters_unsignedTransaction rt transaction r = do {
     parameters \<leftarrow> get_prop transaction ''parameters'';
     unsignedTransaction \<leftarrow> get_prop parameters ''unsignedTransaction'';
     if \<not> truthy unsignedTransaction
     then Some (report ''Missing unsignedTransaction in parameters'' fix_unsignedTransaction r)
     else do {
       shown \<leftarrow> to_string rt unsignedTransaction;
       Some (if \<not> matches_0x_hex shown \<and> \<not> matches_hex shown
             then report ''Invalid transaction hex format'' fix_transaction_hex r
             else r)
     }
   }"

text \<open>Lines 32-75: without a \<^verbatim>\<open>parameters\<close> object the three checks above are not run.\<close>

definition transaction_parameters ::
  "js_runtime \<Rightarrow> jsval \<Rightarrow> AnalysisResult \<Rightarrow> AnalysisResult option" where
  "transaction_parameters rt transaction r = do {
     parameters \<leftarrow> get_prop transaction ''parameters'';
     if \<not> truthy parameters
     then Some (report ''Missing parameters object'' fix_parameters r)
     else do {
       r \<leftarrow> parameters_type rt transaction r;
       r \<leftarrow> parameters_signWith transaction r;
       parameters_unsignedTransaction rt transaction r
     }
   }"

text \<open>Lines 78-103: with no issue, one more suggestion and no issue.\<close>

definition transaction_next_steps :: "AnalysisResult \<Rightarrow> AnalysisResult" where
  "transaction_next_steps r =
     (if length (issues r) = 0 then push_suggestion next_steps r else r)"

definition analyzeTransaction :: "js_runtime \<Rightarrow> int \<Rightarrow> jsval \<Rightarrow> AnalysisResult option" where
  "analyzeTransaction rt now transaction = do {
     r \<leftarrow> transaction_organizationId transaction no_findings;
     r \<leftarrow> transaction_type rt transaction r;
     r \<leftarrow> transaction_timestampMs now transaction r;
     r \<leftarrow> transaction_parameters rt transaction r;
     Some (transaction_next_steps r)
   }"

section \<open>Classification and dispatch (src/commands/check.ts, lines 52-84)\<close>

datatype fileType = Transaction | Policy | Config

text \<open>
  Line 58:
  \<^verbatim>\<open>'type' in data && data.type === 'ACTIVITY_TYPE_SIGN_TRANSACTION_V2'\<close>.
\<close>

definition is_transaction :: "jsval \<Rightarrow> bool option" where
  "is_transaction data = do {
     has_type \<leftarrow> js_in ''type'' data;
     if has_type
     then do {
       ty \<leftarrow> get_prop data ''type'';
       Some (ty = JStr ''ACTIVITY_TYPE_SIGN_TRANSACTION_V2'')
     }
     else Some False
   }"

text \<open>
  Lines 66-70:
  \<^verbatim>\<open>'required_approvals' in data || 'signing_keys' in data ||
  ('policyName' in data && 'effect' in data && 'condition' in data)\<close>.
\<close>

definition is_policy :: "jsval \<Rightarrow> bool option" where
  "is_policy data = do {
     a \<leftarrow> js_in ''required_approvals'' data;
     if a then Some True
     else do {
       b \<leftarrow> js_in ''signing_keys'' data;
       if b then Some True else is_simplified data
     }
   }"

text \<open>The \<^verbatim>\<open>if\<close> / \<^verbatim>\<open>else if\<close> / \<^verbatim>\<open>else\<close> of lines 58-84 sets \<^verbatim>\<open>fileType\<close>.\<close>

definition detect_fileType :: "jsval \<Rightarrow> fileType option" where
  "detect_fileType data = do {
     tx \<leftarrow> is_transaction data;
     if tx then Some Transaction
     else do {
       pol \<leftarrow> is_policy data;
       Some (if pol then Policy else Config)
     }
   }"

text \<open>
  \<^verbatim>\<open>checkConfig\<close> from the parsed document to the values it prints: the file type
  and the result of the evaluator chosen for it. Reading the file, parsing and
  printing are outside the model.
\<close>

definition checkConfig :: "js_runtime \<Rightarrow> int \<Rightarrow> jsval \<Rightarrow> (fileType \<times> AnalysisResult) option" where
  "checkConfig rt now data = do {
     ft \<leftarrow> detect_fileType data;
     r \<leftarrow> (case ft of
             Transaction \<Rightarrow> analyzeTransaction rt now data
           | Policy \<Rightarrow> analyzePolicy rt data
           | Config \<Rightarrow> analyzeConfig rt data);
     Some (ft, r)
   }"

section \<open>The findings of each check\<close>

text \<open>
  \<open>extends P r r'\<close>: the result \<open>r'\<close> is \<open>r\<close> after some number of
  \<^verbatim>\<open>issues.push(i); suggestions.push(s)\<close> pairs, each pair taken from the table \<open>P\<close>.
\<close>

inductive extends ::
  "(string \<Rightarrow> string \<Rightarrow> bool) \<Rightarrow> AnalysisResult \<Rightarrow> AnalysisResult \<Rightarrow> bool"
  for P :: "string \<Rightarrow> string \<Rightarrow> bool" where
  extends_refl: "extends P r r"
| extends_report: "extends P r r' \<Longrightarrow> P i s \<Longrightarrow> extends P r (report i s r')"

text \<open>The issue and the suggestion of each check of \<^verbatim>\<open>analyzeConfig\<close>.\<close>

inductive config_finding :: "string \<Rightarrow> string \<Rightarrow> bool" where
  "config_finding ''Missing organization ID (org_id)'' fix_org_id"
| "config_finding ''Missing wallet ID (wallet_id)'' fix_wallet_id"
| "config_finding ''Missing API public key (api_public_key)'' fix_api_public_key"
| "config_finding ''Missing API private key (api_private_key)'' fix_api_private_key"
| "config_finding ''API private key appears to be invalid or too short'' fix_private_key_short"
| "config_finding ''Missing base URL (base_url)'' fix_base_url"
| "config_finding ''Base URL should use HTTPS for security'' (fix_https stripped)"
| "config_finding ''API public key format appears invalid (might cause 401 errors)''
     fix_public_key_format"

text \<open>
  The checks of the structured policy variant up to line 82, statement by statement:
  \<^verbatim>\<open>required_approvals\<close>, \<^verbatim>\<open>signing_keys\<close> and \<^verbatim>\<open>allowed_activities\<close>. A check
  inside a loop carries the index in its issue and in its suggestion.
\<close>

inductive approvals_finding :: "string \<Rightarrow> string \<Rightarrow> bool" where
  "approvals_finding ''Missing required_approvals field'' fix_required_approvals"
| "approvals_finding ''required_approvals must be at least 1'' fix_required_approvals_low"

inductive keys_finding :: "string \<Rightarrow> string \<Rightarrow> bool" where
  "keys_finding ''No signing keys defined in the policy'' fix_signing_keys"
| "keys_finding (issue_key_id (show_nat n)) (fix_key_id (show_nat n))"
| "keys_finding (issue_public_key (show_nat n)) (fix_public_key (show_nat n))"

inductive activities_finding :: "string \<Rightarrow> string \<Rightarrow> bool" where
  "activities_finding ''No allowed_activities defined in the policy'' fix_allowed_activities"
| "activities_finding (issue_activity_type (show_nat n)) (fix_activity_type (show_nat n))"
| "activities_finding (issue_activity_resources (show_nat n))
     (fix_activity_resources (show_nat n))"
| "activities_finding (issue_activity_placeholder (show_nat n)) fix_activity_placeholder"
| "activities_finding (issue_activity_quantifier (show_nat n)) fix_activity_quantifier"

definition structured_finding :: "string \<Rightarrow> string \<Rightarrow> bool" where
  "structured_finding i s =
     (approvals_finding i s \<or> keys_finding i s \<or> activities_finding i s)"

text \<open>The two findings of the \<^verbatim>\<open>SIGN_WITH_INTENT\<close> rule, lines 89-97.\<close>

inductive intent_finding :: "string \<Rightarrow> string \<Rightarrow> bool" where
  "intent_finding ''SIGN_WITH_INTENT activity is missing parameters'' fix_intent_parameters"
| "intent_finding ''SIGN_WITH_INTENT activity is missing intent_action parameter''
     fix_intent_action"

definition policy_finding :: "string \<Rightarrow> string \<Rightarrow> bool" where
  "policy_finding i s = (structured_finding i s \<or> intent_finding i s)"

text \<open>
  The checks of the simplified policy variant: of \<^verbatim>\<open>policyName\<close> and
  \<^verbatim>\<open>condition\<close>, and of \<^verbatim>\<open>effect\<close>.
\<close>

inductive name_condition_finding :: "string \<Rightarrow> string \<Rightarrow> bool" where
  "name_condition_finding ''Missing policyName field'' fix_policyName"
| "name_condition_finding ''Missing condition field'' fix_condition"
| "name_condition_finding ''Condition contains placeholder <SENDER_ADDRESS>''
     fix_condition_placeholder"
| "name_condition_finding ''Solana condition might be missing quantifier (all/any)''
     fix_condition_quantifier"

inductive effect_finding :: "string \<Rightarrow> string \<Rightarrow> bool" where
  "effect_finding ''Missing effect field'' fix_effect"
| "effect_finding (issue_effect_value shown) fix_effect_value"

definition simplified_finding :: "string \<Rightarrow> string \<Rightarrow> bool" where
  "simplified_finding i s = (name_condition_finding i s \<or> effect_finding i s)"

text \<open>
  The checks of \<^verbatim>\<open>analyzeTransaction\<close>: of \<^verbatim>\<open>organizationId\<close> and
  \<^verbatim>\<open>timestampMs\<close>, at the clock reading \<open>now\<close>; of \<^verbatim>\<open>type\<close>; that there
  is a \<^verbatim>\<open>parameters\<close> object; and of the fields of \<^verbatim>\<open>parameters\<close>.
\<close>

inductive header_finding :: "int \<Rightarrow> string \<Rightarrow> string \<Rightarrow> bool" for now :: int where
  "header_finding now ''Missing organizationId field'' fix_organizationId"
| "header_finding now ''Missing timestampMs field'' (fix_timestampMs (show_int now))"

inductive type_finding :: "string \<Rightarrow> string \<Rightarrow> bool" where
  "type_finding ''Missing type field'' fix_type"
| "type_finding (issue_type_value shown) fix_type_value"

inductive parameters_finding :: "string \<Rightarrow> string \<Rightarrow> bool" where
  "parameters_finding ''Missing parameters object'' fix_parameters"

inductive subfield_finding :: "string \<Rightarrow> string \<Rightarrow> bool" where
  "subfield_finding ''Missing transaction type in parameters'' fix_parameters_type"
| "subfield_finding (issue_blockchain_type shown)
     (fix_blockchain_type (join_with '', '' supportedTypes))"
| "subfield_finding ''Missing signWith address in parameters'' fix_signWith"
| "subfield_finding ''Invalid Ethereum address format'' fix_ethereum_address"
| "subfield_finding ''Missing unsignedTransaction in parameters'' fix_unsignedTransaction"
| "subfield_finding ''Invalid transaction hex format'' fix_transaction_hex"

definition transaction_finding :: "int \<Rightarrow> string \<Rightarrow> string \<Rightarrow> bool" where
  "transaction_finding now i s =
     (header_finding now i s \<or> type_finding i s \<or> parameters_finding i s
      \<or> subfield_finding i s)"

section \<open>Documents whose fields have the declared types\<close>

text \<open>
  The interfaces of \<^verbatim>\<open>src/types/index.ts\<close> declare the fields below as optional
  strings, arrays and objects. Nothing checks a parsed document against them; these
  predicates say that the fields an evaluator calls a method on have the declared type
  when they are set.
\<close>

fun is_object :: "jsval \<Rightarrow> bool" where
  "is_object (JObj ps) = True"
| "is_object v = False"

text \<open>A string, or a value that the presence tests take as missing.\<close>

fun string_or_falsy :: "jsval \<Rightarrow> bool" where
  "string_or_falsy (JStr s) = True"
| "string_or_falsy v = (\<not> truthy v)"


definition typed_config :: "jsval \<Rightarrow> bool" where
  "typed_config config =
     (is_object config
      \<and> string_or_falsy (field config ''api_public_key'')
      \<and> string_or_falsy (field config ''api_private_key'')
      \<and> string_or_falsy (field config ''base_url''))"





definition typed_transaction :: "jsval \<Rightarrow> bool" where
  "typed_transaction transaction =
     (is_object transaction
      \<and> string_or_falsy (field transaction ''type'')
      \<and> (truthy (field transaction ''parameters'')
           \<longrightarrow> string_or_falsy (field (field transaction ''parameters'') ''type'')
             \<and> string_or_falsy (field (field transaction ''parameters'') ''signWith'')
             \<and> string_or_falsy
                 (field (field transaction ''parameters'') ''unsignedTransaction'')))"

section \<open>A run time for the closed examples\<close>

text \<open>
  The theorems below hold for every run time. A closed example needs one: this one
  renders the special values as ECMAScript does and an integer in decimal, and reads
  the empty string as 0 and no other string as a number. No example below reaches a
  conversion.
\<close>

definition sample_runtime :: js_runtime where
  "sample_runtime =
     \<lparr>number_to_string =
        (\<lambda>n. case n of NaN \<Rightarrow> ''NaN'' | PosInf \<Rightarrow> ''Infinity'' | NegInf \<Rightarrow> ''-Infinity''
              | Fin q \<Rightarrow> show_int \<lfloor>q\<rfloor>),
      string_to_number = (\<lambda>s. if s = [] then Fin 0 else NaN)\<rparr>"

section \<open>The classification as the specification words it\<close>

text \<open>
  Transaction when the document has a \<^verbatim>\<open>type\<close> field equal to the sentinel string;
  otherwise policy when it has the key \<^verbatim>\<open>required_approvals\<close>, or the key
  \<^verbatim>\<open>signing_keys\<close>, or all three of \<^verbatim>\<open>policyName\<close>, \<^verbatim>\<open>effect\<close> and
  \<^verbatim>\<open>condition\<close>; otherwise config.
\<close>

definition spec_fileType :: "(string \<times> jsval) list \<Rightarrow> fileType" where
  "spec_fileType ps =
     (if map_of ps ''type'' = Some (JStr ''ACTIVITY_TYPE_SIGN_TRANSACTION_V2'') then Transaction
      else if ''required_approvals'' \<in> fst ` set ps \<or> ''signing_keys'' \<in> fst ` set ps
              \<or> (''policyName'' \<in> fst ` set ps \<and> ''effect'' \<in> fst ` set ps
                  \<and> ''condition'' \<in> fst ` set ps)
      then Policy
      else Config)"

section \<open>Parallel lists\<close>

text \<open>
  The two lists have the same length, and at every index the issue and the suggestion
  are those of one check of the table \<open>P\<close>.
\<close>

definition parallel :: "(string \<Rightarrow> string \<Rightarrow> bool) \<Rightarrow> AnalysisResult \<Rightarrow> bool" where
  "parallel P r =
     (length (issues r) = length (suggestions r)
      \<and> (\<forall>k < length (issues r). P (issues r ! k) (suggestions r ! k)))"

text \<open>The checks of \<^verbatim>\<open>analyzeTransaction\<close> outside the fields of \<^verbatim>\<open>parameters\<close>.\<close>

definition top_level_finding :: "int \<Rightarrow> string \<Rightarrow> string \<Rightarrow> bool" where
  "top_level_finding now i s = (header_finding now i s \<or> type_finding i s \<or> parameters_finding i s)"

section \<open>Results that differ by the clock only\<close>

text \<open>
  Two results of \<^verbatim>\<open>analyzeTransaction\<close>, at the clock readings \<open>t1\<close> and \<open>t2\<close>:
  the issue lists are equal, the suggestion lists have the same length, and they agree at
  every index but that of the issue \<^verbatim>\<open>Missing timestampMs field\<close>, where each holds
  the suggestion of line 28 with its own clock reading.
\<close>

definition same_but_clock :: "int \<Rightarrow> int \<Rightarrow> AnalysisResult \<Rightarrow> AnalysisResult \<Rightarrow> bool" where
  "same_but_clock t1 t2 r1 r2 =
     (issues r1 = issues r2
      \<and> length (suggestions r1) = length (suggestions r2)
      \<and> (\<forall>k < length (suggestions r1).
            suggestions r1 ! k = suggestions r2 ! k
            \<or> (k < length (issues r1)
                \<and> issues r1 ! k = ''Missing timestampMs field''
                \<and> suggestions r1 ! k = fix_timestampMs (show_int t1)
                \<and> suggestions r2 ! k = fix_timestampMs (show_int t2))))"

text \<open>The same, while the two lists are still parallel.\<close>

definition clock_step :: "int \<Rightarrow> int \<Rightarrow> AnalysisResult \<Rightarrow> AnalysisResult \<Rightarrow> bool" where
  "clock_step t1 t2 a b =
     (same_but_clock t1 t2 a b \<and> length (issues a) = length (suggestions a))"

section \<open>Absent fields and their issues\<close>







section \<open>Basic facts\<close>

lemma truthy_not_nullish: "truthy v \<Longrightarrow> \<not> nullish v"
  by (cases v) auto

declare show_nat.simps [simp del]

lemma get_prop_obj [simp]: "get_prop (JObj ps) k = Some (own ps k)"
  by (simp add: get_prop_def)

lemma get_prop_truthy [simp]: "truthy v \<Longrightarrow> get_prop v k = Some (field v k)"
  by (simp add: get_prop_def truthy_not_nullish)

lemma get_prop_Some: "get_prop v k = Some x \<Longrightarrow> x = field v k \<and> \<not> nullish v"
  by (auto simp: get_prop_def split: if_splits)

lemma issues_report [simp]: "issues (report i s r) = issues r @ [i]"
  by (simp add: report_def push_issue_def push_suggestion_def)

lemma suggestions_report [simp]: "suggestions (report i s r) = suggestions r @ [s]"
  by (simp add: report_def push_issue_def push_suggestion_def)

lemma issues_push_suggestion [simp]: "issues (push_suggestion s r) = issues r"
  by (simp add: push_suggestion_def)

lemma suggestions_push_suggestion [simp]: "suggestions (push_suggestion s r) = suggestions r @ [s]"
  by (simp add: push_suggestion_def)

lemma issues_no_findings [simp]: "issues no_findings = []"
  by (simp add: no_findings_def)

lemma suggestions_no_findings [simp]: "suggestions no_findings = []"
  by (simp add: no_findings_def)

lemma extends_trans: "extends P b c \<Longrightarrow> extends P a b \<Longrightarrow> extends P a c"
  by (induction rule: extends.induct) (auto intro: extends.intros)

lemma extends_mono: "extends P a b \<Longrightarrow> (\<And>i s. P i s \<Longrightarrow> Q i s) \<Longrightarrow> extends Q a b"
  by (induction rule: extends.induct) (auto intro: extends.intros)

lemma extends_paired:
  "extends P a b \<Longrightarrow> list_all2 P (issues a) (suggestions a) \<Longrightarrow> list_all2 P (issues b) (suggestions b)"
  by (induction rule: extends.induct) (auto intro: list_all2_appendI)

lemma extends_issues:
  "extends P a b \<Longrightarrow> \<exists>new. issues b = issues a @ new \<and> (\<forall>i\<in>set new. \<exists>s. P i s)"
proof (induction rule: extends.induct)
  case (extends_refl r)
  then show ?case by simp
next
  case (extends_report r r' i s)
  then obtain new where "issues r' = issues r @ new" "\<forall>i\<in>set new. \<exists>s. P i s" by blast
  with extends_report.hyps(2) have "issues (report i s r') = issues r @ (new @ [i]) \<and> (\<forall>j\<in>set (new @ [i]). \<exists>s. P j s)"
    by auto
  then show ?case by blast
qed

subsection \<open>The config evaluator\<close>

lemma config_org_id_extends: "config_org_id d r = Some r' \<Longrightarrow> extends config_finding r r'"
  by (auto simp: config_org_id_def split: bind_splits if_splits
      intro!: extends.intros config_finding.intros)

lemma config_wallet_id_extends: "config_wallet_id d r = Some r' \<Longrightarrow> extends config_finding r r'"
  by (auto simp: config_wallet_id_def split: bind_splits if_splits
      intro!: extends.intros config_finding.intros)

lemma config_api_public_key_extends:
  "config_api_public_key d r = Some r' \<Longrightarrow> extends config_finding r r'"
  by (auto simp: config_api_public_key_def split: bind_splits if_splits
      intro!: extends.intros config_finding.intros)

lemma config_api_private_key_extends:
  "config_api_private_key rt d r = Some r' \<Longrightarrow> extends config_finding r r'"
  by (auto simp: config_api_private_key_def split: bind_splits if_splits
      intro!: extends.intros config_finding.intros)

lemma config_base_url_extends:
  "config_base_url d r = Some r' \<Longrightarrow> extends config_finding r r'"
  by (auto simp: config_base_url_def split: bind_splits if_splits
      intro!: extends.intros config_finding.intros)

lemma config_key_format_extends:
  "config_key_format rt d r = Some r' \<Longrightarrow> extends config_finding r r'"
  by (auto simp: config_key_format_def split: bind_splits if_splits
      intro!: extends.intros config_finding.intros)

lemma analyzeConfig_extends:
  assumes "analyzeConfig rt d = Some r"
  shows "extends config_finding no_findings r"
proof -
  from assms obtain r1 r2 r3 r4 r5 where
    s: "config_org_id d no_findings = Some r1" "config_wallet_id d r1 = Some r2"
       "config_api_public_key d r2 = Some r3" "config_api_private_key rt d r3 = Some r4"
       "config_base_url d r4 = Some r5" "config_key_format rt d r5 = Some r"
    by (auto simp: analyzeConfig_def split: bind_splits)
  show ?thesis
    by (rule extends_trans[OF config_key_format_extends[OF s(6)]],
        rule extends_trans[OF config_base_url_extends[OF s(5)]],
        rule extends_trans[OF config_api_private_key_extends[OF s(4)]],
        rule extends_trans[OF config_api_public_key_extends[OF s(3)]],
        rule extends_trans[OF config_wallet_id_extends[OF s(2)]],
        rule config_org_id_extends[OF s(1)])
qed

lemma typed_config_returns:
  assumes "typed_config d"
  shows "\<exists>r. analyzeConfig rt d = Some r"
proof -
  from assms obtain ps where d: "d = JObj ps" by (cases d) (auto simp: typed_config_def)
  have s1: "\<And>r. \<exists>r'. config_org_id d r = Some r'" by (simp add: d config_org_id_def)
  have s2: "\<And>r. \<exists>r'. config_wallet_id d r = Some r'" by (simp add: d config_wallet_id_def)
  have s3: "\<And>r. \<exists>r'. config_api_public_key d r = Some r'"
    by (simp add: d config_api_public_key_def)
  have s4: "\<And>r. \<exists>r'. config_api_private_key rt d r = Some r'"
    using assms
    by (cases "own ps ''api_private_key''")
       (auto simp: d typed_config_def config_api_private_key_def)
  have s5: "\<And>r. \<exists>r'. config_base_url d r = Some r'"
    using assms
    by (cases "own ps ''base_url''") (auto simp: d typed_config_def config_base_url_def)
  have s6: "\<And>r. \<exists>r'. config_key_format rt d r = Some r'"
    using assms
    by (cases "own ps ''api_public_key''") (auto simp: d typed_config_def config_key_format_def)
  show ?thesis
    unfolding analyzeConfig_def
    by (metis s1 s2 s3 s4 s5 s6 bind.bind_lunit)
qed

lemmas config_defs =
  analyzeConfig_def config_org_id_def config_wallet_id_def config_api_public_key_def
  config_api_private_key_def config_base_url_def config_key_format_def

subsection \<open>Loops\<close>

lemma for_each_from_extends:
  assumes "\<And>i x r r'. f i x r = Some r' \<Longrightarrow> extends P r r'"
  shows "for_each_from f i xs r = Some r' \<Longrightarrow> extends P r r'"
proof (induction xs arbitrary: i r)
  case Nil
  then show ?case by (simp add: extends_refl)
next
  case (Cons x xs)
  from Cons.prems obtain r1 where a: "f i x r = Some r1"
    and b: "for_each_from f (Suc i) xs r1 = Some r'"
    by (auto split: bind_splits)
  from extends_trans [OF Cons.IH [OF b] assms [OF a]] show ?case .
qed

lemma call_forEach_extends:
  assumes "\<And>i x r r'. f i x r = Some r' \<Longrightarrow> extends P r r'"
    and "call_forEach v f r = Some r'"
  shows "extends P r r'"
  using assms(2) by (cases v) (auto intro: for_each_from_extends [OF assms(1)])

subsection \<open>The policy evaluator\<close>

lemma policy_required_approvals_extends:
  "policy_required_approvals rt d r = Some r' \<Longrightarrow> extends approvals_finding r r'"
  by (auto simp: policy_required_approvals_def split: bind_splits if_splits
      intro!: extends.intros approvals_finding.intros)

lemma signing_key_check_extends:
  "signing_key_check i x r = Some r' \<Longrightarrow> extends keys_finding r r'"
  by (auto simp: signing_key_check_def split: bind_splits if_splits
      intro!: extends.intros keys_finding.intros)

lemma policy_signing_keys_extends:
  "policy_signing_keys d r = Some r' \<Longrightarrow> extends keys_finding r r'"
  by (auto simp: policy_signing_keys_def split: bind_splits if_splits
      intro!: extends.intros keys_finding.intros
      intro: call_forEach_extends [OF signing_key_check_extends])

lemma activity_condition_check_extends:
  "activity_condition_check i c r = Some r' \<Longrightarrow> extends activities_finding r r'"
  by (auto simp: activity_condition_check_def split: bind_splits if_splits
      intro!: extends.intros activities_finding.intros)

lemma activity_check_extends:
  "activity_check i x r = Some r' \<Longrightarrow> extends activities_finding r r'"
  by (auto simp: activity_check_def split: bind_splits if_splits
      intro!: extends.intros activities_finding.intros
      intro: extends_trans [OF activity_condition_check_extends])

lemma policy_allowed_activities_extends:
  "policy_allowed_activities d r = Some r' \<Longrightarrow> extends activities_finding r r'"
  by (auto simp: policy_allowed_activities_def split: bind_splits if_splits
      intro!: extends.intros activities_finding.intros
      intro: call_forEach_extends [OF activity_check_extends])

lemma policy_sign_with_intent_extends:
  "policy_sign_with_intent d r = Some r' \<Longrightarrow> extends intent_finding r r'"
  by (auto simp: policy_sign_with_intent_def split: bind_splits if_splits
      intro!: extends.intros intent_finding.intros)

lemma simplified_policyName_extends:
  "simplified_policyName d r = Some r' \<Longrightarrow> extends name_condition_finding r r'"
  by (auto simp: simplified_policyName_def split: bind_splits if_splits
      intro!: extends.intros name_condition_finding.intros)

lemma simplified_effect_extends:
  "simplified_effect rt d r = Some r' \<Longrightarrow> extends effect_finding r r'"
  by (auto simp: simplified_effect_def split: bind_splits if_splits
      intro!: extends.intros effect_finding.intros)

lemma simplified_condition_extends:
  "simplified_condition d r = Some r' \<Longrightarrow> extends name_condition_finding r r'"
  by (auto simp: simplified_condition_def split: bind_splits if_splits
      intro!: extends.intros name_condition_finding.intros)

subsection \<open>The transaction evaluator\<close>

lemma transaction_organizationId_extends:
  "transaction_organizationId d r = Some r' \<Longrightarrow> extends (header_finding now) r r'"
  by (auto simp: transaction_organizationId_def split: bind_splits if_splits
      intro!: extends.intros header_finding.intros)

lemma transaction_type_extends:
  "transaction_type rt d r = Some r' \<Longrightarrow> extends type_finding r r'"
  by (auto simp: transaction_type_def split: bind_splits if_splits
      intro!: extends.intros type_finding.intros)

lemma transaction_timestampMs_extends:
  "transaction_timestampMs now d r = Some r' \<Longrightarrow> extends (header_finding now) r r'"
  by (auto simp: transaction_timestampMs_def split: bind_splits if_splits
      intro!: extends.intros header_finding.intros)

lemma parameters_type_extends:
  "parameters_type rt d r = Some r' \<Longrightarrow> extends subfield_finding r r'"
  by (auto simp: parameters_type_def split: bind_splits if_splits
      intro!: extends.intros subfield_finding.intros)

lemma parameters_signWith_extends:
  "parameters_signWith d r = Some r' \<Longrightarrow> extends subfield_finding r r'"
  by (auto simp: parameters_signWith_def split: bind_splits if_splits
      intro!: extends.intros subfield_finding.intros)

lemma parameters_unsignedTransaction_extends:
  "parameters_unsignedTransaction rt d r = Some r' \<Longrightarrow> extends subfield_finding r r'"
  by (auto simp: parameters_unsignedTransaction_def split: bind_splits if_splits
      intro!: extends.intros subfield_finding.intros)

subsection \<open>Classification\<close>

lemma own_eq_JStr: "own ps k = JStr s \<longleftrightarrow> map_of ps k = Some (JStr s)"
  by (auto simp: own_def split: option.splits)

lemma map_of_Some_key: "map_of ps k = Some v \<Longrightarrow> k \<in> fst ` set ps"
  by (metis domI dom_map_of_conv_image_fst)

text \<open>
  An array has none of the keys and is taken as a config; on a parsed value that is not
  an object at all, \<^verbatim>\<open>'type' in data\<close> raises a \<^verbatim>\<open>TypeError\<close>.
\<close>

lemma detect_fileType_array: "detect_fileType (JArr xs) = Some Config"
  by (simp add: detect_fileType_def is_transaction_def is_policy_def is_simplified_def)

lemma detect_fileType_not_object:
  "\<not> is_object data \<Longrightarrow> \<forall>xs. data \<noteq> JArr xs \<Longrightarrow> detect_fileType data = None"
  by (cases data) (simp_all add: detect_fileType_def is_transaction_def)

lemma detect_fileType_obj: "detect_fileType (JObj ps) = Some (spec_fileType ps)"
  by (auto simp: detect_fileType_def is_transaction_def is_policy_def is_simplified_def
      spec_fileType_def own_eq_JStr dest: map_of_Some_key)

subsection \<open>Whole evaluators\<close>

lemma get_prop_eq_Some: "get_prop v k = Some x \<longleftrightarrow> \<not> nullish v \<and> x = field v k"
  by (auto simp: get_prop_def)

lemma extends_parallel: "extends P no_findings r \<Longrightarrow> parallel P r"
  using extends_paired [of P no_findings r]
  by (simp add: parallel_def list_all2_conv_all_nth)

lemma extends_no_issue: "extends P a b \<Longrightarrow> issues b = [] \<Longrightarrow> b = a"
  by (induction rule: extends.induct) auto

lemma extends_issues_grow: "extends P a b \<Longrightarrow> i \<in> set (issues a) \<Longrightarrow> i \<in> set (issues b)"
  by (induction rule: extends.induct) auto

lemma extends_suggestions:
  "extends P a b \<Longrightarrow> \<exists>new. suggestions b = suggestions a @ new \<and> (\<forall>s\<in>set new. \<exists>i. P i s)"
proof (induction rule: extends.induct)
  case (extends_refl r)
  then show ?case by simp
next
  case (extends_report r r' i s)
  then obtain new where "suggestions r' = suggestions r @ new" "\<forall>s\<in>set new. \<exists>i. P i s"
    by blast
  with extends_report.hyps(2)
  have "suggestions (report i s r') = suggestions r @ (new @ [s])
        \<and> (\<forall>t\<in>set (new @ [s]). \<exists>i. P i t)"
    by auto
  then show ?case by blast
qed

lemma structured_steps:
  assumes "is_simplified d = Some False" and "analyzePolicy rt d = Some r"
  shows "\<exists>r3. extends structured_finding no_findings r3 \<and> policy_sign_with_intent d r3 = Some r"
proof -
  from assms obtain r1 r2 r3 where
    s: "policy_required_approvals rt d no_findings = Some r1"
       "policy_signing_keys d r1 = Some r2" "policy_allowed_activities d r2 = Some r3"
       "policy_sign_with_intent d r3 = Some r"
    by (auto simp: analyzePolicy_def split: bind_splits)
  have "extends structured_finding no_findings r3"
    by (rule extends_trans [OF extends_mono [OF policy_allowed_activities_extends [OF s(3)]]],
        simp add: structured_finding_def,
        rule extends_trans [OF extends_mono [OF policy_signing_keys_extends [OF s(2)]]],
        simp add: structured_finding_def,
        rule extends_mono [OF policy_required_approvals_extends [OF s(1)]],
        simp add: structured_finding_def)
  with s(4) show ?thesis by blast
qed

lemma structured_extends:
  assumes "is_simplified d = Some False" and "analyzePolicy rt d = Some r"
  shows "extends policy_finding no_findings r"
proof -
  from structured_steps [OF assms] obtain r3 where
    a: "extends structured_finding no_findings r3" and b: "policy_sign_with_intent d r3 = Some r"
    by blast
  have "extends policy_finding no_findings r3"
    by (rule extends_mono [OF a]) (simp add: policy_finding_def)
  moreover have "extends policy_finding r3 r"
    by (rule extends_mono [OF policy_sign_with_intent_extends [OF b]]) (simp add: policy_finding_def)
  ultimately show ?thesis by (rule extends_trans [rotated])
qed

lemma simplified_steps:
  assumes "analyzeSimplifiedPolicy rt d = Some r"
  shows "\<exists>r3. extends simplified_finding no_findings r3 \<and> simplified_summary rt d r3 = Some r"
proof -
  from assms obtain r1 r2 r3 where
    s: "simplified_policyName d no_findings = Some r1" "simplified_effect rt d r1 = Some r2"
       "simplified_condition d r2 = Some r3" "simplified_summary rt d r3 = Some r"
    by (auto simp: analyzeSimplifiedPolicy_def split: bind_splits)
  have "extends simplified_finding no_findings r3"
    by (rule extends_trans [OF extends_mono [OF simplified_condition_extends [OF s(3)]]],
        simp add: simplified_finding_def,
        rule extends_trans [OF extends_mono [OF simplified_effect_extends [OF s(2)]]],
        simp add: simplified_finding_def,
        rule extends_mono [OF simplified_policyName_extends [OF s(1)]],
        simp add: simplified_finding_def)
  with s(4) show ?thesis by blast
qed

lemma simplified_summary_cases:
  assumes "simplified_summary rt d r3 = Some r"
  shows "(issues r3 \<noteq> [] \<and> r = r3)
         \<or> (issues r3 = []
             \<and> (\<exists>shown. to_string rt (field d ''condition'') = Some shown
                  \<and> r = push_suggestion
                        (policy_summary
                           (if field d ''effect'' = JStr ''EFFECT_ALLOW'' then ''allow''
                            else ''deny'') shown) r3))"
  using assms
  by (auto simp: simplified_summary_def get_prop_def split: bind_splits if_splits)

lemma simplified_result:
  assumes "analyzeSimplifiedPolicy rt d = Some r"
  shows "(issues r \<noteq> [] \<and> extends simplified_finding no_findings r)
         \<or> (issues r = []
             \<and> (\<exists>shown. to_string rt (field d ''condition'') = Some shown
                  \<and> suggestions r =
                      [policy_summary
                         (if field d ''effect'' = JStr ''EFFECT_ALLOW'' then ''allow''
                          else ''deny'') shown]))"
proof -
  from simplified_steps [OF assms] obtain r3 where
    a: "extends simplified_finding no_findings r3" and b: "simplified_summary rt d r3 = Some r"
    by blast
  from simplified_summary_cases [OF b] show ?thesis
  proof
    assume "issues r3 \<noteq> [] \<and> r = r3"
    with a show ?thesis by simp
  next
    assume c: "issues r3 = []
             \<and> (\<exists>shown. to_string rt (field d ''condition'') = Some shown
                  \<and> r = push_suggestion
                        (policy_summary
                           (if field d ''effect'' = JStr ''EFFECT_ALLOW'' then ''allow''
                            else ''deny'') shown) r3)"
    with extends_no_issue [OF a] have "r3 = no_findings" by simp
    with c show ?thesis by auto
  qed
qed

lemma transaction_steps:
  assumes "analyzeTransaction rt now d = Some r"
  shows "\<exists>r4. extends (transaction_finding now) no_findings r4 \<and> r = transaction_next_steps r4"
proof -
  from assms obtain r1 r2 r3 r4 where
    s: "transaction_organizationId d no_findings = Some r1" "transaction_type rt d r1 = Some r2"
       "transaction_timestampMs now d r2 = Some r3" "transaction_parameters rt d r3 = Some r4"
       "r = transaction_next_steps r4"
    by (auto simp: analyzeTransaction_def split: bind_splits)
  have p: "extends (transaction_finding now) r3 r4"
  proof (cases "truthy (field d ''parameters'')")
    case False
    with s(4) have "r4 = report ''Missing parameters object'' fix_parameters r3"
      by (auto simp: transaction_parameters_def get_prop_def split: bind_splits if_splits)
    then show ?thesis
      by (auto intro!: extends.intros parameters_finding.intros simp: transaction_finding_def)
  next
    case True
    with s(4) obtain q1 q2 where
      q: "parameters_type rt d r3 = Some q1" "parameters_signWith d q1 = Some q2"
         "parameters_unsignedTransaction rt d q2 = Some r4"
      by (auto simp: transaction_parameters_def get_prop_eq_Some split: bind_splits if_splits)
    have "extends subfield_finding r3 r4"
      by (rule extends_trans [OF parameters_unsignedTransaction_extends [OF q(3)]],
          rule extends_trans [OF parameters_signWith_extends [OF q(2)]],
          rule parameters_type_extends [OF q(1)])
    then show ?thesis by (rule extends_mono) (simp add: transaction_finding_def)
  qed
  have "extends (transaction_finding now) no_findings r3"
    by (rule extends_trans [OF extends_mono [OF transaction_timestampMs_extends [OF s(3)]]],
        simp add: transaction_finding_def,
        rule extends_trans [OF extends_mono [OF transaction_type_extends [OF s(2)]]],
        simp add: transaction_finding_def,
        rule extends_mono [OF transaction_organizationId_extends [OF s(1), of now]],
        simp add: transaction_finding_def)
  with p s(5) show ?thesis by (blast intro: extends_trans)
qed

lemma transaction_result:
  assumes "analyzeTransaction rt now d = Some r"
  shows "(issues r \<noteq> [] \<and> extends (transaction_finding now) no_findings r)
         \<or> (issues r = [] \<and> suggestions r = [next_steps])"
proof -
  from transaction_steps [OF assms] obtain r4 where
    a: "extends (transaction_finding now) no_findings r4" and b: "r = transaction_next_steps r4"
    by blast
  show ?thesis
  proof (cases "issues r4 = []")
    case True
    with extends_no_issue [OF a] have "r4 = no_findings" by simp
    with b show ?thesis by (simp add: transaction_next_steps_def)
  next
    case False
    with a b show ?thesis by (simp add: transaction_next_steps_def)
  qed
qed

subsection \<open>Unfolding an evaluator on a concrete document\<close>

lemmas result_defs = no_findings_def report_def push_issue_def push_suggestion_def

lemmas policy_defs =
  analyzePolicy_def is_simplified_def policy_required_approvals_def policy_signing_keys_def
  signing_key_check_def policy_allowed_activities_def activity_check_def
  activity_condition_check_def policy_sign_with_intent_def missing_or_empty_def
  is_sign_activity_def analyzeSimplifiedPolicy_def simplified_policyName_def
  simplified_effect_def simplified_condition_def simplified_summary_def

lemmas transaction_defs =
  analyzeTransaction_def transaction_organizationId_def transaction_type_def
  transaction_timestampMs_def transaction_parameters_def parameters_type_def
  parameters_signWith_def parameters_unsignedTransaction_def transaction_next_steps_def

lemma parallel_results:
  "(\<forall>r. analyzeConfig rt d = Some r \<longrightarrow> parallel config_finding r)
   \<and> (\<forall>r. analyzePolicy rt d = Some r \<longrightarrow>
         (if is_simplified d = Some True
          then (issues r \<noteq> [] \<longrightarrow> parallel simplified_finding r)
               \<and> (issues r = [] \<longrightarrow> (\<exists>verb shown. suggestions r = [policy_summary verb shown]))
          else parallel policy_finding r))
   \<and> (\<forall>r. analyzeTransaction rt now d = Some r \<longrightarrow>
         (issues r \<noteq> [] \<longrightarrow> parallel (transaction_finding now) r)
         \<and> (issues r = [] \<longrightarrow> suggestions r = [next_steps]))"
proof (intro conjI allI impI)
  fix r assume "analyzeConfig rt d = Some r"
  then show "parallel config_finding r"
    by (rule extends_parallel [OF analyzeConfig_extends])
next
  fix r assume a: "analyzePolicy rt d = Some r"
  show "if is_simplified d = Some True
          then (issues r \<noteq> [] \<longrightarrow> parallel simplified_finding r)
               \<and> (issues r = [] \<longrightarrow> (\<exists>verb shown. suggestions r = [policy_summary verb shown]))
          else parallel policy_finding r"
  proof (cases "is_simplified d = Some True")
    case True
    with a have "analyzeSimplifiedPolicy rt d = Some r" by (simp add: analyzePolicy_def)
    from simplified_result [OF this] True show ?thesis
      by (auto intro: extends_parallel)
  next
    case False
    with a have "is_simplified d = Some False"
      by (auto simp: analyzePolicy_def split: bind_splits)
    from structured_extends [OF this a] False show ?thesis
      by (auto intro: extends_parallel)
  qed
next
  fix r assume a: "analyzeTransaction rt now d = Some r" and "issues r \<noteq> []"
  with transaction_result [OF a] show "parallel (transaction_finding now) r"
    by (auto intro: extends_parallel)
next
  fix r assume a: "analyzeTransaction rt now d = Some r" and "issues r = []"
  with transaction_result [OF a] show "suggestions r = [next_steps]"
    by auto
qed


subsection \<open>The clock\<close>

lemma rel_optionD:
  "rel_option R x y \<Longrightarrow> (x = None \<and> y = None) \<or> (\<exists>a b. x = Some a \<and> y = Some b \<and> R a b)"
  by (cases x; cases y) auto

lemma clock_step_refl:
  "length (issues r) = length (suggestions r) \<Longrightarrow> clock_step t1 t2 r r"
  by (simp add: clock_step_def same_but_clock_def)

lemma clock_step_report:
  "clock_step t1 t2 a b \<Longrightarrow> clock_step t1 t2 (report i s a) (report i s b)"
  by (auto simp: clock_step_def same_but_clock_def nth_append)

lemma clock_step_timestamp:
  "length (issues r) = length (suggestions r) \<Longrightarrow>
   clock_step t1 t2 (report ''Missing timestampMs field'' (fix_timestampMs (show_int t1)) r)
     (report ''Missing timestampMs field'' (fix_timestampMs (show_int t2)) r)"
  by (auto simp: clock_step_def same_but_clock_def nth_append)

lemma parameters_type_clock:
  "clock_step t1 t2 a b \<Longrightarrow>
   rel_option (clock_step t1 t2) (parameters_type rt d a) (parameters_type rt d b)"
  by (auto simp: parameters_type_def clock_step_report split: bind_splits if_splits)

lemma parameters_signWith_clock:
  "clock_step t1 t2 a b \<Longrightarrow>
   rel_option (clock_step t1 t2) (parameters_signWith d a) (parameters_signWith d b)"
  by (auto simp: parameters_signWith_def clock_step_report split: bind_splits if_splits)

lemma parameters_unsignedTransaction_clock:
  "clock_step t1 t2 a b \<Longrightarrow>
   rel_option (clock_step t1 t2)
     (parameters_unsignedTransaction rt d a) (parameters_unsignedTransaction rt d b)"
  by (auto simp: parameters_unsignedTransaction_def clock_step_report
      split: bind_splits if_splits)

lemma transaction_parameters_clock:
  assumes "clock_step t1 t2 a b"
  shows "rel_option (clock_step t1 t2)
           (transaction_parameters rt d a) (transaction_parameters rt d b)"
proof (cases "get_prop d ''parameters''")
  case None
  then show ?thesis by (simp add: transaction_parameters_def)
next
  case (Some p)
  show ?thesis
  proof (cases "truthy p")
    case False
    with Some assms show ?thesis
      by (simp add: transaction_parameters_def clock_step_report)
  next
    case True
    from rel_optionD [OF parameters_type_clock [OF assms, of rt d]] show ?thesis
    proof (elim disjE conjE exE)
      assume "parameters_type rt d a = None" "parameters_type rt d b = None"
      with Some True show ?thesis by (simp add: transaction_parameters_def)
    next
      fix a1 b1
      assume s1: "parameters_type rt d a = Some a1" "parameters_type rt d b = Some b1"
        and r1: "clock_step t1 t2 a1 b1"
      from rel_optionD [OF parameters_signWith_clock [OF r1, of d]] show ?thesis
      proof (elim disjE conjE exE)
        assume "parameters_signWith d a1 = None" "parameters_signWith d b1 = None"
        with Some True s1 show ?thesis by (simp add: transaction_parameters_def)
      next
        fix a2 b2
        assume s2: "parameters_signWith d a1 = Some a2" "parameters_signWith d b1 = Some b2"
          and r2: "clock_step t1 t2 a2 b2"
        from parameters_unsignedTransaction_clock [OF r2, of rt d] Some True s1 s2
        show ?thesis by (simp add: transaction_parameters_def)
      qed
    qed
  qed
qed

lemma transaction_timestampMs_clock:
  "length (issues r) = length (suggestions r) \<Longrightarrow>
   rel_option (clock_step t1 t2)
     (transaction_timestampMs t1 d r) (transaction_timestampMs t2 d r)"
  by (auto simp: transaction_timestampMs_def clock_step_refl clock_step_timestamp
      split: bind_splits)

lemma transaction_next_steps_clock:
  assumes "clock_step t1 t2 a b"
  shows "same_but_clock t1 t2 (transaction_next_steps a) (transaction_next_steps b)"
proof (cases "issues a = []")
  case True
  with assms have "suggestions a = []" "suggestions b = []" "issues b = []"
    by (auto simp: clock_step_def same_but_clock_def)
  with True show ?thesis by (simp add: transaction_next_steps_def same_but_clock_def)
next
  case False
  with assms show ?thesis
    by (auto simp: transaction_next_steps_def clock_step_def same_but_clock_def)
qed

lemma extends_lengths:
  "extends P a b \<Longrightarrow> length (issues a) = length (suggestions a)
   \<Longrightarrow> length (issues b) = length (suggestions b)"
  by (induction rule: extends.induct) auto

lemma analyzeTransaction_clock:
  "rel_option (same_but_clock t1 t2) (analyzeTransaction rt t1 d) (analyzeTransaction rt t2 d)"
proof (cases "transaction_organizationId d no_findings")
  case None
  then show ?thesis by (simp add: analyzeTransaction_def)
next
  case r1: (Some r1)
  show ?thesis
  proof (cases "transaction_type rt d r1")
    case None
    with r1 show ?thesis by (simp add: analyzeTransaction_def)
  next
    case r2: (Some r2)
    have "extends type_finding r1 r2" using r2 by (rule transaction_type_extends)
    moreover have "length (issues r1) = length (suggestions r1)"
      using extends_lengths [OF transaction_organizationId_extends [OF r1, of 0]] by simp
    ultimately have len: "length (issues r2) = length (suggestions r2)"
      by (rule extends_lengths)
    from rel_optionD [OF transaction_timestampMs_clock [OF len, of t1 t2 d]] show ?thesis
    proof (elim disjE conjE exE)
      assume "transaction_timestampMs t1 d r2 = None" "transaction_timestampMs t2 d r2 = None"
      with r1 r2 show ?thesis by (simp add: analyzeTransaction_def)
    next
      fix a b
      assume ts: "transaction_timestampMs t1 d r2 = Some a" "transaction_timestampMs t2 d r2 = Some b"
        and ab: "clock_step t1 t2 a b"
      from rel_optionD [OF transaction_parameters_clock [OF ab, of rt d]] show ?thesis
      proof (elim disjE conjE exE)
        assume "transaction_parameters rt d a = None" "transaction_parameters rt d b = None"
        with r1 r2 ts show ?thesis by (simp add: analyzeTransaction_def)
      next
        fix a' b'
        assume p: "transaction_parameters rt d a = Some a'"
          "transaction_parameters rt d b = Some b'"
          and "clock_step t1 t2 a' b'"
        then have "same_but_clock t1 t2 (transaction_next_steps a') (transaction_next_steps b')"
          by (simp add: transaction_next_steps_clock)
        with r1 r2 ts p show ?thesis by (simp add: analyzeTransaction_def)
      qed
    qed
  qed
qed

lemma checkConfig_clock:
  assumes "detect_fileType d \<noteq> Some Transaction"
  shows "checkConfig rt t1 d = checkConfig rt t2 d"
proof (cases "detect_fileType d")
  case None
  then show ?thesis by (simp add: checkConfig_def)
next
  case (Some ft)
  with assms show ?thesis by (cases ft) (simp_all add: checkConfig_def)
qed

lemma checkConfig_config:
  "detect_fileType d = Some Config \<Longrightarrow> map_option snd (checkConfig rt now d) = analyzeConfig rt d"
  by (cases "analyzeConfig rt d") (simp_all add: checkConfig_def)

lemma checkConfig_policy:
  "detect_fileType d = Some Policy \<Longrightarrow> map_option snd (checkConfig rt now d) = analyzePolicy rt d"
  by (cases "analyzePolicy rt d") (simp_all add: checkConfig_def)

lemma truthy_field_not_nullish: "truthy (field d k) \<Longrightarrow> \<not> nullish d"
  by (cases d) auto

lemma analyzeTransaction_with_timestamp:
  assumes "truthy (field d ''timestampMs'')"
  shows "analyzeTransaction rt t1 d = analyzeTransaction rt t2 d"
proof -
  have "transaction_timestampMs t1 d r = transaction_timestampMs t2 d r" for r
    using assms truthy_field_not_nullish [OF assms]
    by (simp add: transaction_timestampMs_def get_prop_def)
  then show ?thesis by (simp add: analyzeTransaction_def)
qed

subsection \<open>Typed documents: the evaluators return\<close>

lemma is_objectE: "is_object d \<Longrightarrow> (\<And>ps. d = JObj ps \<Longrightarrow> thesis) \<Longrightarrow> thesis"
  by (cases d) auto

lemma string_or_falsy_cases: "string_or_falsy v \<Longrightarrow> \<not> truthy v \<or> (\<exists>s. v = JStr s)"
  by (cases v) auto

lemma to_string_string_or_falsy: "string_or_falsy v \<Longrightarrow> \<exists>s. to_string rt v = Some s"
  by (cases v) auto












lemma bind_returns:
  "\<exists>a. m = Some a \<Longrightarrow> (\<And>a. \<exists>b. f a = Some b) \<Longrightarrow> \<exists>b. Option.bind m f = Some b"
  by (cases m) auto

lemma simplified_returns:
  assumes "is_object d" and "string_or_falsy (field d ''effect'')"
    and "string_or_falsy (field d ''condition'')"
  shows "\<exists>r. analyzeSimplifiedPolicy rt d = Some r"
proof -
  from assms(1) obtain ps where d: "d = JObj ps" by (rule is_objectE)
  have s1: "\<exists>r'. simplified_policyName d r = Some r'" for r
    by (simp add: simplified_policyName_def d)
  have s2: "\<exists>r'. simplified_effect rt d r = Some r'" for r
    using string_or_falsy_cases [OF assms(2)]
    by (auto simp: simplified_effect_def d)
  have s3: "\<exists>r'. simplified_condition d r = Some r'" for r
    using string_or_falsy_cases [OF assms(3)]
    by (auto simp: simplified_condition_def d)
  have s4: "\<exists>r'. simplified_summary rt d r = Some r'" for r
    using to_string_string_or_falsy [OF assms(3), of rt]
    by (auto simp: simplified_summary_def d)
  show ?thesis
    unfolding analyzeSimplifiedPolicy_def
    by (intro bind_returns s1 s2 s3 s4)
qed

lemma is_simplified_obj:
  "is_simplified (JObj ps) =
     Some (''policyName'' \<in> fst ` set ps \<and> ''effect'' \<in> fst ` set ps
           \<and> ''condition'' \<in> fst ` set ps)"
  by (auto simp: is_simplified_def)


lemma typed_transaction_returns:
  assumes "typed_transaction d"
  shows "\<exists>r. analyzeTransaction rt now d = Some r"
proof -
  from assms have o: "is_object d" by (simp add: typed_transaction_def)
  then obtain ps where d: "d = JObj ps" by (rule is_objectE)
  have s1: "\<exists>r'. transaction_organizationId d r = Some r'" for r
    by (simp add: transaction_organizationId_def d)
  have s2: "\<exists>r'. transaction_type rt d r = Some r'" for r
    using assms string_or_falsy_cases [of "field d ''type''"]
    by (auto simp: transaction_type_def typed_transaction_def d)
  have s3: "\<exists>r'. transaction_timestampMs now d r = Some r'" for r
    by (simp add: transaction_timestampMs_def d)
  have s4: "\<exists>r'. transaction_parameters rt d r = Some r'" for r
  proof (cases "truthy (field d ''parameters'')")
    case False
    then show ?thesis by (simp add: transaction_parameters_def d)
  next
    case True
    let ?p = "field d ''parameters''"
    from True assms have t: "string_or_falsy (field ?p ''type'')"
      "string_or_falsy (field ?p ''signWith'')" "string_or_falsy (field ?p ''unsignedTransaction'')"
      by (simp_all add: typed_transaction_def)
    have g: "get_prop d ''parameters'' = Some ?p" by (simp add: d)
    have p1: "\<exists>r'. parameters_type rt d r = Some r'" for r
      using True string_or_falsy_cases [OF t(1)]
      by (auto simp: parameters_type_def g)
    have p2: "\<exists>r'. parameters_signWith d r = Some r'" for r
      using True string_or_falsy_cases [OF t(2)]
      by (auto simp: parameters_signWith_def g)
    have p3: "\<exists>r'. parameters_unsignedTransaction rt d r = Some r'" for r
      using True string_or_falsy_cases [OF t(3)]
      by (auto simp: parameters_unsignedTransaction_def g)
    have "\<exists>r'. Option.bind (parameters_type rt d r)
            (\<lambda>r. Option.bind (parameters_signWith d r) (parameters_unsignedTransaction rt d))
          = Some r'"
      by (intro bind_returns p1 p2 p3)
    with True g show ?thesis by (simp add: transaction_parameters_def)
  qed
  have "\<exists>r. Option.bind (transaction_organizationId d no_findings)
          (\<lambda>r. Option.bind (transaction_type rt d r)
             (\<lambda>r. Option.bind (transaction_timestampMs now d r)
                (\<lambda>r. Option.bind (transaction_parameters rt d r)
                   (\<lambda>r. Some (transaction_next_steps r))))) = Some r"
    by (intro bind_returns s1 s2 s3 s4) simp
  then show ?thesis by (simp add: analyzeTransaction_def)
qed

lemmas issue_defs =
  issue_key_id_def issue_public_key_def issue_activity_type_def issue_activity_resources_def
  issue_activity_placeholder_def issue_activity_quantifier_def issue_effect_value_def
  issue_type_value_def issue_blockchain_type_def

lemmas policy_fix_defs =
  fix_required_approvals_def fix_required_approvals_low_def fix_signing_keys_def fix_key_id_def
  fix_public_key_def fix_allowed_activities_def fix_activity_type_def
  fix_activity_resources_def fix_activity_placeholder_def fix_activity_quantifier_def
  fix_intent_parameters_def fix_intent_action_def

lemmas simplified_fix_defs =
  fix_policyName_def fix_effect_def fix_effect_value_def fix_condition_def
  fix_condition_placeholder_def fix_condition_quantifier_def policy_summary_def

subsection \<open>The findings of different checks are different strings\<close>

lemma simplified_issue_not_policy: "simplified_finding i s \<Longrightarrow> \<not> policy_finding i s'"
  by (auto simp: policy_finding_def structured_finding_def simplified_finding_def issue_defs
      elim!: name_condition_finding.cases effect_finding.cases approvals_finding.cases keys_finding.cases
        activities_finding.cases intent_finding.cases)

lemma simplified_suggestion_not_policy: "simplified_finding i s \<Longrightarrow> \<not> policy_finding i' s"
  by (auto simp: policy_finding_def structured_finding_def simplified_finding_def
        policy_fix_defs simplified_fix_defs
      elim!: name_condition_finding.cases effect_finding.cases approvals_finding.cases keys_finding.cases
        activities_finding.cases intent_finding.cases)

lemma summary_not_policy: "\<not> policy_finding i (policy_summary verb shown)"
  by (auto simp: policy_finding_def structured_finding_def policy_fix_defs simplified_fix_defs
      elim!: approvals_finding.cases keys_finding.cases activities_finding.cases
        intent_finding.cases)


lemma simplified_result_not_policy:
  assumes "analyzeSimplifiedPolicy rt d = Some r"
  shows "(\<forall>i\<in>set (issues r). \<forall>s. \<not> policy_finding i s)
         \<and> (\<forall>s\<in>set (suggestions r). \<forall>i. \<not> policy_finding i s)"
proof -
  from simplified_result [OF assms] show ?thesis
  proof (elim disjE conjE exE)
    assume "extends simplified_finding no_findings r"
    from extends_issues [OF this] extends_suggestions [OF this]
    show ?thesis
      by (auto dest: simplified_issue_not_policy simplified_suggestion_not_policy)
  next
    fix shown
    assume "issues r = []"
      and "suggestions r =
            [policy_summary
               (if field d ''effect'' = JStr ''EFFECT_ALLOW'' then ''allow'' else ''deny'') shown]"
    then show ?thesis by (simp add: summary_not_policy)
  qed
qed

subsection \<open>The SIGN_WITH_INTENT rule\<close>

lemma structured_issue_not_intent: "structured_finding i s \<Longrightarrow> \<not> intent_finding i s'"
  by (auto simp: structured_finding_def issue_defs elim!: approvals_finding.cases keys_finding.cases activities_finding.cases
        intent_finding.cases)

lemma find_first_split:
  assumes "\<forall>a\<in>set before. p a = Some False" and "p first = Some True"
  shows "find_first p (before @ first # later) = Some first"
  using assms by (induction before) auto

lemma is_sign_activity_truthy: "is_sign_activity a = Some True \<Longrightarrow> truthy a"
  by (cases a) (auto simp: is_sign_activity_def get_prop_def split: if_splits)

lemma policy_sign_with_intent_found:
  assumes "field policy ''allowed_activities'' = JArr (before @ first # later)"
    and "\<forall>a\<in>set before. is_sign_activity a = Some False"
    and "is_sign_activity first = Some True"
    and "\<not> nullish policy"
  shows "policy_sign_with_intent policy r =
           Some (if field first ''type'' = JStr ''SIGN_WITH_INTENT''
                 then if \<not> truthy (field first ''parameters'')
                      then report ''SIGN_WITH_INTENT activity is missing parameters''
                             fix_intent_parameters r
                      else if \<not> truthy (field (field first ''parameters'') ''intent_action'')
                      then report ''SIGN_WITH_INTENT activity is missing intent_action parameter''
                             fix_intent_action r
                      else r
                 else r)"
  using assms(1,4) find_first_split [OF assms(2,3), of later] is_sign_activity_truthy [OF assms(3)]
  by (simp add: policy_sign_with_intent_def get_prop_def truthy_not_nullish)

lemma is_simplified_not_nullish: "is_simplified d = Some b \<Longrightarrow> \<not> nullish d"
  by (cases d) (auto simp: is_simplified_def)

lemma activity_check_not_nullish: "activity_check i x r = Some r' \<Longrightarrow> \<not> nullish x"
  by (auto simp: activity_check_def get_prop_def split: bind_splits if_splits)

lemma for_each_from_activity_check:
  "for_each_from activity_check i xs r = Some r' \<Longrightarrow> \<forall>x\<in>set xs. \<not> nullish x"
proof (induction xs arbitrary: i r)
  case Nil
  then show ?case by simp
next
  case (Cons x xs)
  from Cons.prems obtain r1 where a: "activity_check i x r = Some r1"
    and b: "for_each_from activity_check (Suc i) xs r1 = Some r'"
    by (auto split: bind_splits)
  from activity_check_not_nullish [OF a] Cons.IH [OF b] show ?case by simp
qed

lemma allowed_activities_not_nullish:
  assumes "policy_allowed_activities policy r = Some r'"
    and "field policy ''allowed_activities'' = JArr (x # xs)"
  shows "\<forall>a\<in>set (x # xs). \<not> nullish a"
proof -
  from assms have "for_each_from activity_check 0 (x # xs) r = Some r'"
    by (auto simp: policy_allowed_activities_def missing_or_empty_def get_prop_eq_Some
        split: bind_splits if_splits)
  then show ?thesis by (rule for_each_from_activity_check)
qed

lemma is_sign_activity_by_type:
  "\<not> nullish a \<Longrightarrow>
   is_sign_activity a =
     Some (field a ''type'' = JStr ''SIGN_WITH_INTENT''
           \<or> field a ''type'' = JStr ''SIGN_TRANSACTION'')"
  by (simp add: is_sign_activity_def get_prop_def)

subsection \<open>A transaction without parameters\<close>

lemmas transaction_fix_defs =
  fix_organizationId_def fix_type_def fix_type_value_def fix_timestampMs_def fix_parameters_def
  fix_parameters_type_def fix_blockchain_type_def fix_signWith_def fix_ethereum_address_def
  fix_unsignedTransaction_def fix_transaction_hex_def

lemma top_level_issue_not_subfield:
  "top_level_finding now i s \<Longrightarrow> \<not> subfield_finding i s'"
  by (auto simp: top_level_finding_def issue_defs
      elim!: header_finding.cases type_finding.cases parameters_finding.cases
        subfield_finding.cases)

lemma top_level_suggestion_not_subfield:
  "top_level_finding now i s \<Longrightarrow> \<not> subfield_finding i' s"
  by (auto simp: top_level_finding_def transaction_fix_defs
      elim!: header_finding.cases type_finding.cases parameters_finding.cases
        subfield_finding.cases)

lemma header_issue_not_parameters:
  "header_finding now i s \<or> type_finding i s \<Longrightarrow> i \<noteq> ''Missing parameters object''"
  by (auto simp: issue_defs elim!: header_finding.cases type_finding.cases)

lemma transaction_without_parameters:
  assumes "\<not> truthy (field d ''parameters'')" and "analyzeTransaction rt now d = Some r"
  shows "\<exists>r3. extends (\<lambda>i s. header_finding now i s \<or> type_finding i s) no_findings r3
              \<and> r = report ''Missing parameters object'' fix_parameters r3"
proof -
  from assms(2) obtain r1 r2 r3 r4 where
    s: "transaction_organizationId d no_findings = Some r1" "transaction_type rt d r1 = Some r2"
       "transaction_timestampMs now d r2 = Some r3" "transaction_parameters rt d r3 = Some r4"
       "r = transaction_next_steps r4"
    by (auto simp: analyzeTransaction_def split: bind_splits)
  let ?P = "\<lambda>i s. header_finding now i s \<or> type_finding i s"
  have e: "extends ?P no_findings r3"
    by (rule extends_trans [OF extends_mono [OF transaction_timestampMs_extends [OF s(3)]]],
        simp,
        rule extends_trans [OF extends_mono [OF transaction_type_extends [OF s(2)]]],
        simp,
        rule extends_mono [OF transaction_organizationId_extends [OF s(1), of now]],
        simp)
  from s(4) assms(1) have "r4 = report ''Missing parameters object'' fix_parameters r3"
    by (auto simp: transaction_parameters_def get_prop_eq_Some split: bind_splits if_splits)
  with s(5) have "r = report ''Missing parameters object'' fix_parameters r3"
    by (simp add: transaction_next_steps_def)
  with e show ?thesis by blast
qed

subsection \<open>Values that test as missing\<close>

lemma extends_issue_absent:
  "extends P a b \<Longrightarrow> (\<And>i s. P i s \<Longrightarrow> i \<noteq> x) \<Longrightarrow> x \<notin> set (issues a) \<Longrightarrow> x \<notin> set (issues b)"
  by (induction rule: extends.induct) auto

lemma config_org_id_empty:
  assumes "field config ''org_id'' = JStr []" and "analyzeConfig rt config = Some r"
  shows "''Missing organization ID (org_id)'' \<in> set (issues r)"
proof -
  from assms(2) obtain r1 r2 r3 r4 r5 where
    s: "config_org_id config no_findings = Some r1" "config_wallet_id config r1 = Some r2"
       "config_api_public_key config r2 = Some r3" "config_api_private_key rt config r3 = Some r4"
       "config_base_url config r4 = Some r5" "config_key_format rt config r5 = Some r"
    by (auto simp: analyzeConfig_def split: bind_splits)
  from s(1) assms(1) have "''Missing organization ID (org_id)'' \<in> set (issues r1)"
    by (auto simp: config_org_id_def get_prop_eq_Some split: bind_splits)
  moreover have "extends config_finding r1 r"
    by (rule extends_trans [OF config_key_format_extends [OF s(6)]],
        rule extends_trans [OF config_base_url_extends [OF s(5)]],
        rule extends_trans [OF config_api_private_key_extends [OF s(4)]],
        rule extends_trans [OF config_api_public_key_extends [OF s(3)]],
        rule config_wallet_id_extends [OF s(2)])
  ultimately show ?thesis by (rule extends_issues_grow [rotated])
qed

lemma name_condition_not_effect:
  "name_condition_finding i s \<Longrightarrow> i \<noteq> issue_effect_value shown"
  by (auto simp: issue_defs elim!: name_condition_finding.cases)

lemma simplified_effect_empty:
  assumes "field policy ''effect'' = JStr []" and "analyzeSimplifiedPolicy rt policy = Some r"
  shows "''Missing effect field'' \<in> set (issues r) \<and> issue_effect_value shown \<notin> set (issues r)"
proof -
  from assms(2) obtain r1 r2 r3 where
    s: "simplified_policyName policy no_findings = Some r1"
       "simplified_effect rt policy r1 = Some r2"
       "simplified_condition policy r2 = Some r3" "simplified_summary rt policy r3 = Some r"
    by (auto simp: analyzeSimplifiedPolicy_def split: bind_splits)
  from s(2) assms(1) have r2: "r2 = report ''Missing effect field'' fix_effect r1"
    by (auto simp: simplified_effect_def get_prop_eq_Some split: bind_splits)
  have n1: "issue_effect_value shown \<notin> set (issues r1)"
    by (rule extends_issue_absent [OF simplified_policyName_extends [OF s(1)]])
       (simp_all add: name_condition_not_effect)
  then have n2: "issue_effect_value shown \<notin> set (issues r2)"
    by (simp add: r2 issue_effect_value_def)
  have n3: "issue_effect_value shown \<notin> set (issues r3)"
    by (rule extends_issue_absent [OF simplified_condition_extends [OF s(3)] _ n2])
       (simp add: name_condition_not_effect)
  have m3: "''Missing effect field'' \<in> set (issues r3)"
    by (rule extends_issues_grow [OF simplified_condition_extends [OF s(3)]]) (simp add: r2)
  then have "issues r3 \<noteq> []" by auto
  with s(4) have "r = r3" by (simp add: simplified_summary_def)
  with n3 m3 show ?thesis by simp
qed

lemma later_structured_not_missing_approvals:
  "keys_finding i s \<or> activities_finding i s \<or> intent_finding i s
   \<Longrightarrow> i \<noteq> ''Missing required_approvals field''"
  by (auto simp: issue_defs
      elim!: keys_finding.cases activities_finding.cases intent_finding.cases)

lemma required_approvals_zero:
  assumes "is_simplified policy = Some False"
    and "field policy ''required_approvals'' = JNum (Fin 0)"
    and "analyzePolicy rt policy = Some r"
  shows "''required_approvals must be at least 1'' \<in> set (issues r)
         \<and> ''Missing required_approvals field'' \<notin> set (issues r)"
proof -
  from assms(1,3) obtain r1 r2 r3 where
    s: "policy_required_approvals rt policy no_findings = Some r1"
       "policy_signing_keys policy r1 = Some r2" "policy_allowed_activities policy r2 = Some r3"
       "policy_sign_with_intent policy r3 = Some r"
    by (auto simp: analyzePolicy_def split: bind_splits)
  from s(1) assms(2)
  have r1: "r1 = report ''required_approvals must be at least 1'' fix_required_approvals_low
                   no_findings"
    by (auto simp: policy_required_approvals_def get_prop_eq_Some split: bind_splits)
  let ?P = "\<lambda>i s. keys_finding i s \<or> activities_finding i s \<or> intent_finding i s"
  have e: "extends ?P r1 r"
    by (rule extends_trans [OF extends_mono [OF policy_sign_with_intent_extends [OF s(4)]]],
        simp,
        rule extends_trans [OF extends_mono [OF policy_allowed_activities_extends [OF s(3)]]],
        simp,
        rule extends_mono [OF policy_signing_keys_extends [OF s(2)]],
        simp)
  have "''Missing required_approvals field'' \<notin> set (issues r)"
    by (rule extends_issue_absent [OF e])
       (use later_structured_not_missing_approvals in blast, simp add: r1)
  moreover have "''required_approvals must be at least 1'' \<in> set (issues r)"
    by (rule extends_issues_grow [OF e]) (simp add: r1)
  ultimately show ?thesis by simp
qed

subsection \<open>The pipeline\<close>

lemma transaction_parameters_extends:
  assumes "transaction_parameters rt d r = Some r'"
  shows "extends (\<lambda>i s. parameters_finding i s \<or> subfield_finding i s) r r'"
proof (cases "truthy (field d ''parameters'')")
  case False
  with assms have "r' = report ''Missing parameters object'' fix_parameters r"
    by (auto simp: transaction_parameters_def get_prop_eq_Some split: bind_splits if_splits)
  then show ?thesis by (auto intro!: extends.intros parameters_finding.intros)
next
  case True
  with assms obtain q1 q2 where
    q: "parameters_type rt d r = Some q1" "parameters_signWith d q1 = Some q2"
       "parameters_unsignedTransaction rt d q2 = Some r'"
    by (auto simp: transaction_parameters_def get_prop_eq_Some split: bind_splits if_splits)
  have "extends subfield_finding r r'"
    by (rule extends_trans [OF parameters_unsignedTransaction_extends [OF q(3)]],
        rule extends_trans [OF parameters_signWith_extends [OF q(2)]],
        rule parameters_type_extends [OF q(1)])
  then show ?thesis by (rule extends_mono) simp
qed

lemma is_transaction_type:
  "is_transaction data = Some True \<Longrightarrow> field data ''type'' = JStr ''ACTIVITY_TYPE_SIGN_TRANSACTION_V2''"
  by (auto simp: is_transaction_def get_prop_eq_Some split: bind_splits if_splits)

lemma detect_Transaction:
  "detect_fileType data = Some Transaction \<Longrightarrow> is_transaction data = Some True"
  by (auto simp: detect_fileType_def split: bind_splits if_splits)

lemma transaction_type_sentinel:
  assumes "field d ''type'' = JStr ''ACTIVITY_TYPE_SIGN_TRANSACTION_V2''"
    and "transaction_type rt d r = Some r'"
  shows "r' = r"
  using assms by (auto simp: transaction_type_def get_prop_eq_Some split: bind_splits if_splits)

lemma not_type_value_transaction:
  "header_finding now i s \<or> parameters_finding i s \<or> subfield_finding i s
   \<Longrightarrow> i \<noteq> issue_type_value shown"
  by (auto simp: issue_defs
      elim!: header_finding.cases parameters_finding.cases subfield_finding.cases)

lemma not_type_value_policy:
  "policy_finding i s \<or> simplified_finding i s \<Longrightarrow> i \<noteq> issue_type_value shown"
  by (auto simp: policy_finding_def structured_finding_def simplified_finding_def issue_defs
      elim!: approvals_finding.cases keys_finding.cases activities_finding.cases
        intent_finding.cases name_condition_finding.cases effect_finding.cases)

lemma not_type_value_config: "config_finding i s \<Longrightarrow> i \<noteq> issue_type_value shown"
  by (auto simp: issue_defs elim!: config_finding.cases)

lemma sentinel_transaction_issues:
  assumes "field d ''type'' = JStr ''ACTIVITY_TYPE_SIGN_TRANSACTION_V2''"
    and "analyzeTransaction rt now d = Some r"
  shows "issue_type_value shown \<notin> set (issues r)"
proof -
  from assms(2) obtain r1 r2 r3 r4 where
    s: "transaction_organizationId d no_findings = Some r1" "transaction_type rt d r1 = Some r2"
       "transaction_timestampMs now d r2 = Some r3" "transaction_parameters rt d r3 = Some r4"
       "r = transaction_next_steps r4"
    by (auto simp: analyzeTransaction_def split: bind_splits)
  from transaction_type_sentinel [OF assms(1) s(2)] have r2: "r2 = r1" .
  let ?P = "\<lambda>i s. header_finding now i s \<or> parameters_finding i s \<or> subfield_finding i s"
  have "extends ?P no_findings r4"
    by (rule extends_trans [OF extends_mono [OF transaction_parameters_extends [OF s(4)]]],
        blast,
        rule extends_trans [OF extends_mono [OF transaction_timestampMs_extends [OF s(3)]]],
        blast,
        unfold r2,
        rule extends_mono [OF transaction_organizationId_extends [OF s(1), of now]],
        blast)
  then have "issue_type_value shown \<notin> set (issues r4)"
    by (rule extends_issue_absent) (use not_type_value_transaction in blast, simp)
  then show ?thesis by (simp add: s(5) transaction_next_steps_def)
qed

lemma policy_issues_not_type_value:
  assumes "analyzePolicy rt d = Some r"
  shows "issue_type_value shown \<notin> set (issues r)"
proof (cases "is_simplified d = Some True")
  case True
  with assms have "analyzeSimplifiedPolicy rt d = Some r" by (simp add: analyzePolicy_def)
  from simplified_result [OF this] show ?thesis
  proof (elim disjE conjE exE)
    assume "extends simplified_finding no_findings r"
    then show ?thesis
      by (rule extends_issue_absent) (use not_type_value_policy in blast, simp)
  qed simp
next
  case False
  with assms have "is_simplified d = Some False"
    by (auto simp: analyzePolicy_def split: bind_splits)
  from structured_extends [OF this assms] show ?thesis
    by (rule extends_issue_absent) (use not_type_value_policy in blast, simp)
qed

lemma config_issues_not_type_value:
  assumes "analyzeConfig rt d = Some r"
  shows "issue_type_value shown \<notin> set (issues r)"
  by (rule extends_issue_absent [OF analyzeConfig_extends [OF assms]])
     (use not_type_value_config in blast, simp)

subsection \<open>Absent fields are reported\<close>














section \<open>The claims\<close>

text \<open>
  C1, as amended. \<^verbatim>\<open>analyzeConfig\<close> and \<^verbatim>\<open>analyzePolicy\<close> read nothing but the
  document: at every clock reading, the findings \<^verbatim>\<open>checkConfig\<close> returns for a
  document it classifies as a config are what \<^verbatim>\<open>analyzeConfig\<close> computes from
  the document, those for a policy are what \<^verbatim>\<open>analyzePolicy\<close> computes from it,
  and what \<^verbatim>\<open>checkConfig\<close> returns for a document that is not a transaction is
  the same at any two clock readings.
  \<^verbatim>\<open>analyzeTransaction\<close> reads the clock in one place, the suggestion of line 28.
  At two clock readings it raises at both or returns at both; the two results have the
  same issues and the same suggestions, except the suggestion at the index of the issue
  \<^verbatim>\<open>Missing timestampMs field\<close>, which holds each reading; and on a document whose
  \<^verbatim>\<open>timestampMs\<close> is set the two results are equal.
\<close>

theorem C1_determinism_up_to_clock:
  "(analyzeTransaction rt t1 d = None \<longleftrightarrow> analyzeTransaction rt t2 d = None)
   \<and> (\<forall>r1 r2. analyzeTransaction rt t1 d = Some r1 \<and> analyzeTransaction rt t2 d = Some r2 \<longrightarrow>
          same_but_clock t1 t2 r1 r2)
   \<and> (truthy (field d ''timestampMs'') \<longrightarrow>
        analyzeTransaction rt t1 d = analyzeTransaction rt t2 d)
   \<and> (detect_fileType d = Some Config \<longrightarrow>
        map_option snd (checkConfig rt t1 d) = analyzeConfig rt d)
   \<and> (detect_fileType d = Some Policy \<longrightarrow>
        map_option snd (checkConfig rt t1 d) = analyzePolicy rt d)
   \<and> (detect_fileType d \<noteq> Some Transaction \<longrightarrow> checkConfig rt t1 d = checkConfig rt t2 d)"
proof (intro conjI allI impI)
  from rel_optionD [OF analyzeTransaction_clock [of t1 t2 rt d]]
  show "analyzeTransaction rt t1 d = None \<longleftrightarrow> analyzeTransaction rt t2 d = None" by auto
next
  fix r1 r2
  assume a: "analyzeTransaction rt t1 d = Some r1 \<and> analyzeTransaction rt t2 d = Some r2"
  with analyzeTransaction_clock [of t1 t2 rt d] show "same_but_clock t1 t2 r1 r2" by simp
next
  assume "truthy (field d ''timestampMs'')"
  then show "analyzeTransaction rt t1 d = analyzeTransaction rt t2 d"
    by (rule analyzeTransaction_with_timestamp)
next
  assume "detect_fileType d = Some Config"
  then show "map_option snd (checkConfig rt t1 d) = analyzeConfig rt d"
    by (rule checkConfig_config)
next
  assume "detect_fileType d = Some Policy"
  then show "map_option snd (checkConfig rt t1 d) = analyzePolicy rt d"
    by (rule checkConfig_policy)
next
  assume "detect_fileType d \<noteq> Some Transaction"
  then show "checkConfig rt t1 d = checkConfig rt t2 d" by (rule checkConfig_clock)
qed

text \<open>
  The empty document at the clock readings 0 and 1: the results differ in the third
  suggestion only. A document with \<^verbatim>\<open>timestampMs\<close> set: the results are equal. The
  empty document is a config for \<^verbatim>\<open>checkConfig\<close>, and a document with
  \<^verbatim>\<open>required_approvals\<close> a policy.
\<close>

theorem C1_determinism_witness:
  "analyzeTransaction sample_runtime 0 (JObj []) =
     Some \<lparr>issues = [''Missing organizationId field'', ''Missing type field'',
                      ''Missing timestampMs field'', ''Missing parameters object''],
           suggestions = [fix_organizationId, fix_type, fix_timestampMs ''0'', fix_parameters]\<rparr>
   \<and> analyzeTransaction sample_runtime 1 (JObj []) =
     Some \<lparr>issues = [''Missing organizationId field'', ''Missing type field'',
                      ''Missing timestampMs field'', ''Missing parameters object''],
           suggestions = [fix_organizationId, fix_type, fix_timestampMs ''1'', fix_parameters]\<rparr>
   \<and> same_but_clock 0 1
        \<lparr>issues = [''Missing organizationId field'', ''Missing type field'',
                    ''Missing timestampMs field'', ''Missing parameters object''],
         suggestions = [fix_organizationId, fix_type, fix_timestampMs ''0'', fix_parameters]\<rparr>
        \<lparr>issues = [''Missing organizationId field'', ''Missing type field'',
                    ''Missing timestampMs field'', ''Missing parameters object''],
         suggestions = [fix_organizationId, fix_type, fix_timestampMs ''1'', fix_parameters]\<rparr>
   \<and> truthy (field (JObj [(''timestampMs'', JStr ''1'')]) ''timestampMs'')
   \<and> analyzeTransaction sample_runtime 0 (JObj [(''timestampMs'', JStr ''1'')])
       = analyzeTransaction sample_runtime 1 (JObj [(''timestampMs'', JStr ''1'')])
   \<and> detect_fileType (JObj []) = Some Config
   \<and> map_option snd (checkConfig sample_runtime 0 (JObj []))
       = analyzeConfig sample_runtime (JObj [])
   \<and> checkConfig sample_runtime 0 (JObj []) = checkConfig sample_runtime 1 (JObj [])
   \<and> detect_fileType (JObj [(''required_approvals'', JNum (Fin 1))]) = Some Policy
   \<and> map_option snd (checkConfig sample_runtime 0 (JObj [(''required_approvals'', JNum (Fin 1))]))
       = analyzePolicy sample_runtime (JObj [(''required_approvals'', JNum (Fin 1))])
   \<and> checkConfig sample_runtime 0 (JObj [(''required_approvals'', JNum (Fin 1))])
       = checkConfig sample_runtime 1 (JObj [(''required_approvals'', JNum (Fin 1))])"
proof -
  have run: "analyzeTransaction sample_runtime t (JObj []) =
       Some \<lparr>issues = [''Missing organizationId field'', ''Missing type field'',
                        ''Missing timestampMs field'', ''Missing parameters object''],
             suggestions = [fix_organizationId, fix_type, fix_timestampMs (show_int t),
                            fix_parameters]\<rparr>" for t
    by (simp add: transaction_defs result_defs own_def)
  have s: "show_int 0 = ''0''" "show_int 1 = ''1''"
    by (simp_all add: show_int_def show_nat.simps digit_char_def)
  have t: "truthy (field (JObj [(''timestampMs'', JStr ''1'')]) ''timestampMs'')"
    by (simp add: own_def)
  have c: "detect_fileType (JObj []) = Some Config"
    by (simp add: detect_fileType_obj spec_fileType_def)
  have p: "detect_fileType (JObj [(''required_approvals'', JNum (Fin 1))]) = Some Policy"
    by (simp add: detect_fileType_obj spec_fileType_def)
  note empty = C1_determinism_up_to_clock [of sample_runtime 0 "JObj []" 1]
  note stamped =
    C1_determinism_up_to_clock [of sample_runtime 0 "JObj [(''timestampMs'', JStr ''1'')]" 1]
  note policy =
    C1_determinism_up_to_clock
      [of sample_runtime 0 "JObj [(''required_approvals'', JNum (Fin 1))]" 1]
  from empty run [of 0] run [of 1]
  have a: "same_but_clock 0 1
        \<lparr>issues = [''Missing organizationId field'', ''Missing type field'',
                    ''Missing timestampMs field'', ''Missing parameters object''],
         suggestions = [fix_organizationId, fix_type, fix_timestampMs ''0'', fix_parameters]\<rparr>
        \<lparr>issues = [''Missing organizationId field'', ''Missing type field'',
                    ''Missing timestampMs field'', ''Missing parameters object''],
         suggestions = [fix_organizationId, fix_type, fix_timestampMs ''1'', fix_parameters]\<rparr>"
    by (simp add: s)
  from stamped t
  have b: "analyzeTransaction sample_runtime 0 (JObj [(''timestampMs'', JStr ''1'')])
           = analyzeTransaction sample_runtime 1 (JObj [(''timestampMs'', JStr ''1'')])"
    by blast
  from c have nc: "detect_fileType (JObj []) \<noteq> Some Transaction" by simp
  from p have np: "detect_fileType (JObj [(''required_approvals'', JNum (Fin 1))])
                   \<noteq> Some Transaction" by simp
  from empty c
  have c1: "map_option snd (checkConfig sample_runtime 0 (JObj []))
            = analyzeConfig sample_runtime (JObj [])"
    by blast
  from empty nc
  have c2: "checkConfig sample_runtime 0 (JObj []) = checkConfig sample_runtime 1 (JObj [])"
    by blast
  from policy p
  have p1: "map_option snd
              (checkConfig sample_runtime 0 (JObj [(''required_approvals'', JNum (Fin 1))]))
            = analyzePolicy sample_runtime (JObj [(''required_approvals'', JNum (Fin 1))])"
    by blast
  from policy np
  have p2: "checkConfig sample_runtime 0 (JObj [(''required_approvals'', JNum (Fin 1))])
            = checkConfig sample_runtime 1 (JObj [(''required_approvals'', JNum (Fin 1))])"
    by blast
  from run [of 0] run [of 1] a t b c c1 c2 p p1 p2 show ?thesis by (simp only: s simp_thms)
qed

text \<open>
  C1 as stated fails: on the empty document, which has no \<^verbatim>\<open>timestampMs\<close>, two
  invocations at the clock readings 0 and 1 return different suggestion lists. The
  suggestion for the missing field embeds \<^verbatim>\<open>Date.now()\<close>.
\<close>

theorem C1_clock_counterexample:
  "map_option suggestions (analyzeTransaction sample_runtime 0 (JObj []))
   \<noteq> map_option suggestions (analyzeTransaction sample_runtime 1 (JObj []))"
proof -
  have run: "analyzeTransaction sample_runtime t (JObj []) =
       Some \<lparr>issues = [''Missing organizationId field'', ''Missing type field'',
                        ''Missing timestampMs field'', ''Missing parameters object''],
             suggestions = [fix_organizationId, fix_type, fix_timestampMs (show_int t),
                            fix_parameters]\<rparr>" for t
    by (simp add: transaction_defs result_defs own_def)
  have "fix_timestampMs (show_int 0) \<noteq> fix_timestampMs (show_int 1)"
    by (simp add: fix_timestampMs_def show_int_def show_nat.simps digit_char_def)
  then show ?thesis by (simp add: run)
qed




text \<open>
  C3. A parsed document is classified in this order, the first match winning:
  transaction when it has a \<^verbatim>\<open>type\<close> field equal to
  \<^verbatim>\<open>ACTIVITY_TYPE_SIGN_TRANSACTION_V2\<close>; otherwise policy when it has the key
  \<^verbatim>\<open>required_approvals\<close>, or the key \<^verbatim>\<open>signing_keys\<close>, or all three of
  \<^verbatim>\<open>policyName\<close>, \<^verbatim>\<open>effect\<close> and \<^verbatim>\<open>condition\<close>; otherwise config. The
  conditions of \<^verbatim>\<open>checkConfig\<close> compute exactly that, and whenever
  \<^verbatim>\<open>checkConfig\<close> gets a result from an evaluator, the file type it has set is that
  one.
\<close>

theorem C3_classification:
  "detect_fileType (JObj ps) = Some (spec_fileType ps)
   \<and> (\<forall>ft r. checkConfig rt now (JObj ps) = Some (ft, r) \<longrightarrow> ft = spec_fileType ps)"
  by (auto simp: detect_fileType_obj checkConfig_def split: bind_splits)

text \<open>
  A document with both \<^verbatim>\<open>type\<close> equal to the sentinel and the key
  \<^verbatim>\<open>required_approvals\<close> is a transaction: the first match wins.
\<close>

theorem C3_classification_witness:
  "detect_fileType
     (JObj [(''required_approvals'', JNum (Fin 1)),
            (''type'', JStr ''ACTIVITY_TYPE_SIGN_TRANSACTION_V2'')]) = Some Transaction
   \<and> fst (the (checkConfig sample_runtime 0
        (JObj [(''required_approvals'', JNum (Fin 1)),
               (''type'', JStr ''ACTIVITY_TYPE_SIGN_TRANSACTION_V2'')]))) = Transaction"
proof -
  let ?ps = "[(''required_approvals'', JNum (Fin 1)),
              (''type'', JStr ''ACTIVITY_TYPE_SIGN_TRANSACTION_V2'')]"
  have c: "spec_fileType ?ps = Transaction" by (simp add: spec_fileType_def)
  obtain r where r: "analyzeTransaction sample_runtime 0 (JObj ?ps) = Some r"
    by (simp add: analyzeTransaction_def transaction_organizationId_def transaction_type_def
        transaction_timestampMs_def transaction_parameters_def own_def)
  have "checkConfig sample_runtime 0 (JObj ?ps) = Some (Transaction, r)"
    using r by (simp add: checkConfig_def detect_fileType_obj c)
  with C3_classification [of ?ps sample_runtime 0] c show ?thesis by simp
qed

text \<open>
  C4. For every policy document in which the keys \<^verbatim>\<open>policyName\<close>, \<^verbatim>\<open>effect\<close> and
  \<^verbatim>\<open>condition\<close> are all present, \<^verbatim>\<open>analyzePolicy\<close> is
  \<^verbatim>\<open>analyzeSimplifiedPolicy\<close>: it raises when that raises and returns its result
  otherwise. No issue and no suggestion of a check of the structured variant
  (\<^verbatim>\<open>required_approvals\<close>, \<^verbatim>\<open>signing_keys\<close>, \<^verbatim>\<open>allowed_activities\<close>,
  \<^verbatim>\<open>SIGN_WITH_INTENT\<close>) is in the result.
\<close>

theorem C4_simplified_shape_skips_structured_rules:
  assumes "''policyName'' \<in> fst ` set ps" and "''effect'' \<in> fst ` set ps"
    and "''condition'' \<in> fst ` set ps"
  shows "analyzePolicy rt (JObj ps) = analyzeSimplifiedPolicy rt (JObj ps)
         \<and> (\<forall>r. analyzePolicy rt (JObj ps) = Some r \<longrightarrow>
               (\<forall>i\<in>set (issues r). \<forall>s. \<not> policy_finding i s)
               \<and> (\<forall>s\<in>set (suggestions r). \<forall>i. \<not> policy_finding i s))"
proof -
  from assms have e: "analyzePolicy rt (JObj ps) = analyzeSimplifiedPolicy rt (JObj ps)"
    by (simp add: analyzePolicy_def is_simplified_obj)
  with simplified_result_not_policy [of rt "JObj ps"] show ?thesis by simp
qed

text \<open>
  A document of the simplified shape that also has \<^verbatim>\<open>required_approvals\<close> set to 0
  and no \<^verbatim>\<open>signing_keys\<close>: the structured rules would report both, and nothing
  is reported.
\<close>

theorem C4_simplified_shape_witness:
  "analyzePolicy sample_runtime
     (JObj [(''policyName'', JStr ''p''), (''effect'', JStr ''EFFECT_ALLOW''),
            (''condition'', JStr ''c''), (''required_approvals'', JNum (Fin 0))])
   = Some \<lparr>issues = [], suggestions = [policy_summary ''allow'' ''c'']\<rparr>
   \<and> analyzeSimplifiedPolicy sample_runtime
     (JObj [(''policyName'', JStr ''p''), (''effect'', JStr ''EFFECT_ALLOW''),
            (''condition'', JStr ''c''), (''required_approvals'', JNum (Fin 0))])
   = Some \<lparr>issues = [], suggestions = [policy_summary ''allow'' ''c'']\<rparr>"
proof -
  let ?ps = "[(''policyName'', JStr ''p''), (''effect'', JStr ''EFFECT_ALLOW''),
              (''condition'', JStr ''c''), (''required_approvals'', JNum (Fin 0))]"
  have "analyzeSimplifiedPolicy sample_runtime (JObj ?ps)
        = Some \<lparr>issues = [], suggestions = [policy_summary ''allow'' ''c'']\<rparr>"
    by (simp add: policy_defs result_defs own_def)
  with C4_simplified_shape_skips_structured_rules [of ?ps sample_runtime] show ?thesis
    by simp
qed

text \<open>
  C5. For every config document whose \<^verbatim>\<open>org_id\<close> and \<^verbatim>\<open>wallet_id\<close> are set to
  non-empty values, whose \<^verbatim>\<open>api_public_key\<close> is a string that contains \<^verbatim>\<open>TK\<close> and
  has length at least 10, whose \<^verbatim>\<open>api_private_key\<close> is a string of length at least
  20 and whose \<^verbatim>\<open>base_url\<close> is a string that starts with \<^verbatim>\<open>https://\<close>,
  \<^verbatim>\<open>analyzeConfig\<close> returns an empty issue list and an empty suggestion list. A
  value is non-empty when the presence test \<^verbatim>\<open>!v\<close> fails on it, as on every
  non-empty string.
\<close>

theorem C5_valid_config_no_findings:
  assumes "is_object config"
    and "truthy (field config ''org_id'')" and "truthy (field config ''wallet_id'')"
    and "field config ''api_public_key'' = JStr pk"
    and "includes_str pk ''TK''" and "10 \<le> length pk"
    and "field config ''api_private_key'' = JStr sk" and "20 \<le> length sk"
    and "field config ''base_url'' = JStr url" and "prefix ''https://'' url"
  shows "analyzeConfig rt config = Some \<lparr>issues = [], suggestions = []\<rparr>"
proof -
  from assms(1) obtain ps where d: "config = JObj ps" by (cases config) auto
  have pk: "pk \<noteq> []" using assms(6) by auto
  have sk: "sk \<noteq> []" using assms(8) by auto
  have url: "url \<noteq> []" using assms(10) by auto
  show ?thesis
    using assms pk sk url by (simp add: d config_defs no_findings_def)
qed

text \<open>The valid config of \<^verbatim>\<open>tests/check.test.ts\<close>.\<close>

theorem C5_valid_config_witness:
  "is_object
     (JObj [(''org_id'', JStr ''test-org''), (''wallet_id'', JStr ''test-wallet''),
            (''api_public_key'', JStr ''TK1234567890''),
            (''api_private_key'', JStr ''this-is-a-long-enough-private-key-for-testing''),
            (''base_url'', JStr ''https://api.turnkey.com'')])
   \<and> includes_str ''TK1234567890'' ''TK'' \<and> 10 \<le> length ''TK1234567890''
   \<and> 20 \<le> length ''this-is-a-long-enough-private-key-for-testing''
   \<and> prefix ''https://'' ''https://api.turnkey.com''
   \<and> analyzeConfig sample_runtime
        (JObj [(''org_id'', JStr ''test-org''), (''wallet_id'', JStr ''test-wallet''),
               (''api_public_key'', JStr ''TK1234567890''),
               (''api_private_key'', JStr ''this-is-a-long-enough-private-key-for-testing''),
               (''base_url'', JStr ''https://api.turnkey.com'')])
       = Some \<lparr>issues = [], suggestions = []\<rparr>"
  using C5_valid_config_no_findings
    [of "JObj [(''org_id'', JStr ''test-org''), (''wallet_id'', JStr ''test-wallet''),
               (''api_public_key'', JStr ''TK1234567890''),
               (''api_private_key'', JStr ''this-is-a-long-enough-private-key-for-testing''),
               (''base_url'', JStr ''https://api.turnkey.com'')]"
        "''TK1234567890''" "''this-is-a-long-enough-private-key-for-testing''"
        "''https://api.turnkey.com''" sample_runtime]
  by (simp add: own_def)

text \<open>
  C6. On the structured path, let \<open>first\<close> be the first entry of
  \<^verbatim>\<open>allowed_activities\<close>, in list order, whose type is \<^verbatim>\<open>SIGN_WITH_INTENT\<close> or
  \<^verbatim>\<open>SIGN_TRANSACTION\<close>: no entry before it has either type. The result has the issue
  about missing parameters exactly when the type of \<open>first\<close> is
  \<^verbatim>\<open>SIGN_WITH_INTENT\<close> and it has no \<^verbatim>\<open>parameters\<close>, and the issue about a missing
  \<^verbatim>\<open>intent_action\<close> exactly when the type is \<^verbatim>\<open>SIGN_WITH_INTENT\<close>,
  \<^verbatim>\<open>parameters\<close> is there and \<^verbatim>\<open>parameters.intent_action\<close> is not. The entries
  after \<open>first\<close> play no part: when \<open>first\<close> is well formed, or is a
  \<^verbatim>\<open>SIGN_TRANSACTION\<close> entry, neither issue is reported, whatever the later entries
  lack.
\<close>

theorem C6_only_first_sign_activity_checked:
  assumes "is_simplified policy = Some False"
    and "field policy ''allowed_activities'' = JArr (before @ first # later)"
    and "\<forall>a\<in>set before. field a ''type'' \<noteq> JStr ''SIGN_WITH_INTENT''
                          \<and> field a ''type'' \<noteq> JStr ''SIGN_TRANSACTION''"
    and "field first ''type'' = JStr ''SIGN_WITH_INTENT''
         \<or> field first ''type'' = JStr ''SIGN_TRANSACTION''"
    and "analyzePolicy rt policy = Some r"
  shows "(''SIGN_WITH_INTENT activity is missing parameters'' \<in> set (issues r)
            \<longleftrightarrow> field first ''type'' = JStr ''SIGN_WITH_INTENT''
                \<and> \<not> truthy (field first ''parameters''))
         \<and> (''SIGN_WITH_INTENT activity is missing intent_action parameter'' \<in> set (issues r)
            \<longleftrightarrow> field first ''type'' = JStr ''SIGN_WITH_INTENT''
                \<and> truthy (field first ''parameters'')
                \<and> \<not> truthy (field (field first ''parameters'') ''intent_action''))"
proof -
  from assms(1,5) obtain r1 r2 r3 where
    s: "policy_required_approvals rt policy no_findings = Some r1"
       "policy_signing_keys policy r1 = Some r2" "policy_allowed_activities policy r2 = Some r3"
       "policy_sign_with_intent policy r3 = Some r"
    by (auto simp: analyzePolicy_def split: bind_splits)
  have "\<exists>x xs. before @ first # later = x # xs" by (cases before) auto
  then obtain x xs where xs: "before @ first # later = x # xs" by blast
  from allowed_activities_not_nullish [OF s(3)] assms(2) xs
  have nn: "\<forall>a\<in>set (before @ first # later). \<not> nullish a" by simp
  have b: "\<forall>a\<in>set before. is_sign_activity a = Some False"
    using nn assms(3) by (simp add: is_sign_activity_by_type)
  have f: "is_sign_activity first = Some True"
    using nn assms(4) by (simp add: is_sign_activity_by_type)
  have a: "extends structured_finding no_findings r3"
    by (rule extends_trans [OF extends_mono [OF policy_allowed_activities_extends [OF s(3)]]],
        simp add: structured_finding_def,
        rule extends_trans [OF extends_mono [OF policy_signing_keys_extends [OF s(2)]]],
        simp add: structured_finding_def,
        rule extends_mono [OF policy_required_approvals_extends [OF s(1)]],
        simp add: structured_finding_def)
  from extends_issues [OF a] have "\<forall>i\<in>set (issues r3). \<exists>s. structured_finding i s" by auto
  then have n: "\<forall>i\<in>set (issues r3). \<forall>s. \<not> intent_finding i s"
    using structured_issue_not_intent by blast
  have n1: "''SIGN_WITH_INTENT activity is missing parameters'' \<notin> set (issues r3)"
    using n intent_finding.intros(1) by blast
  have n2: "''SIGN_WITH_INTENT activity is missing intent_action parameter'' \<notin> set (issues r3)"
    using n intent_finding.intros(2) by blast
  from s(4) policy_sign_with_intent_found
         [OF assms(2) b f is_simplified_not_nullish [OF assms(1)], of r3]
  have "r = (if field first ''type'' = JStr ''SIGN_WITH_INTENT''
                 then if \<not> truthy (field first ''parameters'')
                      then report ''SIGN_WITH_INTENT activity is missing parameters''
                             fix_intent_parameters r3
                      else if \<not> truthy (field (field first ''parameters'') ''intent_action'')
                      then report ''SIGN_WITH_INTENT activity is missing intent_action parameter''
                             fix_intent_action r3
                      else r3
                 else r3)"
    by simp
  with n1 n2 show ?thesis by (auto split: if_splits)
qed

text \<open>
  A policy whose entries have the types \<^verbatim>\<open>CREATE_WALLET\<close>, \<^verbatim>\<open>SIGN_TRANSACTION\<close> and
  \<^verbatim>\<open>SIGN_WITH_INTENT\<close>, the last without \<^verbatim>\<open>parameters\<close>: the first matching entry is
  the second one and nothing is reported. With the last two entries exchanged the first
  matching entry is the one without \<^verbatim>\<open>parameters\<close>, and the issue is reported.
\<close>

theorem C6_only_first_witness:
  "field (JObj [(''type'', JStr ''CREATE_WALLET''), (''resources'', JArr [JStr ''*''])]) ''type''
     \<noteq> JStr ''SIGN_WITH_INTENT''
   \<and> field (JObj [(''type'', JStr ''CREATE_WALLET''), (''resources'', JArr [JStr ''*''])]) ''type''
     \<noteq> JStr ''SIGN_TRANSACTION''
   \<and> field (JObj [(''type'', JStr ''SIGN_TRANSACTION''), (''resources'', JArr [JStr ''*''])])
       ''type'' = JStr ''SIGN_TRANSACTION''
   \<and> analyzePolicy sample_runtime
       (JObj [(''required_approvals'', JNum (Fin 1)),
              (''signing_keys'', JArr [JObj [(''key_id'', JStr ''k''), (''public_key'', JStr ''p'')]]),
              (''allowed_activities'',
                 JArr [JObj [(''type'', JStr ''CREATE_WALLET''), (''resources'', JArr [JStr ''*''])],
                       JObj [(''type'', JStr ''SIGN_TRANSACTION''),
                             (''resources'', JArr [JStr ''*''])],
                       JObj [(''type'', JStr ''SIGN_WITH_INTENT''),
                             (''resources'', JArr [JStr ''*''])]])])
     = Some \<lparr>issues = [], suggestions = []\<rparr>
   \<and> ''SIGN_WITH_INTENT activity is missing parameters''
       \<notin> set (issues \<lparr>issues = [], suggestions = []\<rparr>)
   \<and> analyzePolicy sample_runtime
       (JObj [(''required_approvals'', JNum (Fin 1)),
              (''signing_keys'', JArr [JObj [(''key_id'', JStr ''k''), (''public_key'', JStr ''p'')]]),
              (''allowed_activities'',
                 JArr [JObj [(''type'', JStr ''CREATE_WALLET''), (''resources'', JArr [JStr ''*''])],
                       JObj [(''type'', JStr ''SIGN_WITH_INTENT''),
                             (''resources'', JArr [JStr ''*''])],
                       JObj [(''type'', JStr ''SIGN_TRANSACTION''),
                             (''resources'', JArr [JStr ''*''])]])])
     = Some \<lparr>issues = [''SIGN_WITH_INTENT activity is missing parameters''],
             suggestions = [fix_intent_parameters]\<rparr>
   \<and> ''SIGN_WITH_INTENT activity is missing parameters''
       \<in> set (issues \<lparr>issues = [''SIGN_WITH_INTENT activity is missing parameters''],
                        suggestions = [fix_intent_parameters]\<rparr>)"
proof -
  let ?other = "JObj [(''type'', JStr ''CREATE_WALLET''), (''resources'', JArr [JStr ''*''])]"
  let ?sign = "JObj [(''type'', JStr ''SIGN_TRANSACTION''), (''resources'', JArr [JStr ''*''])]"
  let ?intent = "JObj [(''type'', JStr ''SIGN_WITH_INTENT''), (''resources'', JArr [JStr ''*''])]"
  let ?policy = "\<lambda>acts. JObj [(''required_approvals'', JNum (Fin 1)),
            (''signing_keys'', JArr [JObj [(''key_id'', JStr ''k''), (''public_key'', JStr ''p'')]]),
            (''allowed_activities'', JArr acts)]"
  have s: "is_simplified (?policy acts) = Some False" for acts by (simp add: is_simplified_obj)
  have f1: "field (?policy [?other, ?sign, ?intent]) ''allowed_activities''
            = JArr ([?other] @ ?sign # [?intent])"
    by (simp add: own_def)
  have f2: "field (?policy [?other, ?intent, ?sign]) ''allowed_activities''
            = JArr ([?other] @ ?intent # [?sign])"
    by (simp add: own_def)
  have b: "\<forall>a\<in>set [?other]. field a ''type'' \<noteq> JStr ''SIGN_WITH_INTENT''
                          \<and> field a ''type'' \<noteq> JStr ''SIGN_TRANSACTION''"
    by (simp add: own_def)
  have t1: "field ?sign ''type'' = JStr ''SIGN_WITH_INTENT''
            \<or> field ?sign ''type'' = JStr ''SIGN_TRANSACTION''"
    by (simp add: own_def)
  have t2: "field ?intent ''type'' = JStr ''SIGN_WITH_INTENT''
            \<or> field ?intent ''type'' = JStr ''SIGN_TRANSACTION''"
    by (simp add: own_def)
  have run1: "analyzePolicy sample_runtime (?policy [?other, ?sign, ?intent])
              = Some \<lparr>issues = [], suggestions = []\<rparr>"
    by (simp add: policy_defs result_defs own_def)
  have run2: "analyzePolicy sample_runtime (?policy [?other, ?intent, ?sign])
              = Some \<lparr>issues = [''SIGN_WITH_INTENT activity is missing parameters''],
                      suggestions = [fix_intent_parameters]\<rparr>"
    by (simp add: policy_defs result_defs own_def)
  from C6_only_first_sign_activity_checked [OF s f1 b t1 run1]
    C6_only_first_sign_activity_checked [OF s f2 b t2 run2] run1 run2
  show ?thesis by (simp add: own_def)
qed

text \<open>
  C7. For every transaction document lacking a \<^verbatim>\<open>parameters\<close> object, every result
  of \<^verbatim>\<open>analyzeTransaction\<close> has the issue about the missing object exactly once and
  has no issue and no suggestion of a check of \<^verbatim>\<open>parameters.type\<close>,
  \<^verbatim>\<open>parameters.signWith\<close> or \<^verbatim>\<open>parameters.unsignedTransaction\<close>. There is a result
  whenever the document is an object whose \<^verbatim>\<open>type\<close> is a string or missing.
\<close>

theorem C7_missing_parameters_skips_subfields:
  assumes "\<not> truthy (field transaction ''parameters'')"
  shows "(is_object transaction \<and> string_or_falsy (field transaction ''type'')
            \<longrightarrow> (\<exists>r. analyzeTransaction rt now transaction = Some r))
         \<and> (\<forall>r. analyzeTransaction rt now transaction = Some r \<longrightarrow>
               count_list (issues r) ''Missing parameters object'' = 1
               \<and> (\<forall>i s. subfield_finding i s \<longrightarrow>
                      i \<notin> set (issues r) \<and> s \<notin> set (suggestions r)))"
proof (intro conjI allI impI)
  assume "is_object transaction \<and> string_or_falsy (field transaction ''type'')"
  with assms have "typed_transaction transaction" by (simp add: typed_transaction_def)
  then show "\<exists>r. analyzeTransaction rt now transaction = Some r"
    by (rule typed_transaction_returns)
next
  fix r assume "analyzeTransaction rt now transaction = Some r"
  from transaction_without_parameters [OF assms this] obtain r3 where
    e: "extends (\<lambda>i s. header_finding now i s \<or> type_finding i s) no_findings r3"
    and r: "r = report ''Missing parameters object'' fix_parameters r3"
    by blast
  from extends_issues [OF e]
  have i3: "\<forall>i\<in>set (issues r3). \<exists>s. header_finding now i s \<or> type_finding i s" by auto
  from extends_suggestions [OF e]
  have s3: "\<forall>s\<in>set (suggestions r3). \<exists>i. header_finding now i s \<or> type_finding i s" by auto
  from i3 have "''Missing parameters object'' \<notin> set (issues r3)"
    using header_issue_not_parameters by blast
  then show "count_list (issues r) ''Missing parameters object'' = 1"
    by (simp add: r count_list_0_iff)
  have ti: "\<forall>i\<in>set (issues r). \<exists>s. top_level_finding now i s"
    using i3 by (auto simp: r top_level_finding_def intro: parameters_finding.intros)
  have ts: "\<forall>s\<in>set (suggestions r). \<exists>i. top_level_finding now i s"
    using s3 by (auto simp: r top_level_finding_def intro: parameters_finding.intros)
  {
    fix i s assume f: "subfield_finding i s"
    show "i \<notin> set (issues r)" using ti f top_level_issue_not_subfield by blast
    show "s \<notin> set (suggestions r)" using ts f top_level_suggestion_not_subfield by blast
  }
qed


text \<open>A request with its three top-level fields and no \<^verbatim>\<open>parameters\<close>.\<close>

theorem C7_missing_parameters_witness:
  "\<not> truthy (field (JObj [(''organizationId'', JStr ''o''),
                            (''type'', JStr ''ACTIVITY_TYPE_SIGN_TRANSACTION_V2''),
                            (''timestampMs'', JStr ''1'')]) ''parameters'')
   \<and> analyzeTransaction sample_runtime 0
        (JObj [(''organizationId'', JStr ''o''),
               (''type'', JStr ''ACTIVITY_TYPE_SIGN_TRANSACTION_V2''),
               (''timestampMs'', JStr ''1'')])
       = Some \<lparr>issues = [''Missing parameters object''], suggestions = [fix_parameters]\<rparr>
   \<and> count_list [''Missing parameters object''] ''Missing parameters object'' = 1"
proof -
  let ?d = "JObj [(''organizationId'', JStr ''o''),
                  (''type'', JStr ''ACTIVITY_TYPE_SIGN_TRANSACTION_V2''),
                  (''timestampMs'', JStr ''1'')]"
  have p: "\<not> truthy (field ?d ''parameters'')" by (simp add: own_def)
  have run: "analyzeTransaction sample_runtime 0 ?d
             = Some \<lparr>issues = [''Missing parameters object''], suggestions = [fix_parameters]\<rparr>"
    by (simp add: transaction_defs result_defs own_def)
  from C7_missing_parameters_skips_subfields [OF p, of sample_runtime 0] p run
  show ?thesis by simp
qed

text \<open>
  C8. In every result an evaluator returns, the suggestion list is at least as long as
  the issue list. When some issue was reported the two lists are parallel: they have the
  same length, and at every index the suggestion is the one pushed by the check that
  pushed the issue (both are one row of the table of checks). \<^verbatim>\<open>analyzeConfig\<close> and
  the structured policy path return parallel lists always, so with no issue they return
  no suggestion. With no issue, the simplified policy path and
  \<^verbatim>\<open>analyzeTransaction\<close> return exactly one suggestion, the informational one.
\<close>

theorem C8_suggestions_parallel_to_issues:
  "(\<forall>r. analyzeConfig rt d = Some r \<longrightarrow>
         length (issues r) \<le> length (suggestions r) \<and> parallel config_finding r)
   \<and> (\<forall>r. analyzePolicy rt d = Some r \<longrightarrow>
         length (issues r) \<le> length (suggestions r)
         \<and> (if is_simplified d = Some True
              then (issues r \<noteq> [] \<longrightarrow> parallel simplified_finding r)
                   \<and> (issues r = [] \<longrightarrow>
                        (\<exists>verb shown. suggestions r = [policy_summary verb shown]))
              else parallel policy_finding r))
   \<and> (\<forall>r. analyzeTransaction rt now d = Some r \<longrightarrow>
         length (issues r) \<le> length (suggestions r)
         \<and> (issues r \<noteq> [] \<longrightarrow> parallel (transaction_finding now) r)
         \<and> (issues r = [] \<longrightarrow> suggestions r = [next_steps]))"
proof -
  have len: "length (issues r) \<le> length (suggestions r)"
    if "issues r \<noteq> [] \<longrightarrow> parallel P r" for P r
    using that by (cases "issues r = []") (simp_all add: parallel_def)
  note core = parallel_results [of rt d now]
  show ?thesis
  proof (intro conjI allI impI)
    fix r assume "analyzeConfig rt d = Some r"
    with core show "parallel config_finding r" by blast
    then show "length (issues r) \<le> length (suggestions r)" by (simp add: parallel_def)
  next
    fix r assume a: "analyzePolicy rt d = Some r"
    with core show c: "if is_simplified d = Some True
              then (issues r \<noteq> [] \<longrightarrow> parallel simplified_finding r)
                   \<and> (issues r = [] \<longrightarrow>
                        (\<exists>verb shown. suggestions r = [policy_summary verb shown]))
              else parallel policy_finding r"
      by blast
    show "length (issues r) \<le> length (suggestions r)"
    proof (cases "is_simplified d = Some True")
      case True
      with c show ?thesis by (intro len [of r simplified_finding]) simp
    next
      case False
      with c show ?thesis by (simp add: parallel_def)
    qed
  next
    fix r assume a: "analyzeTransaction rt now d = Some r"
    with core show "length (issues r) \<le> length (suggestions r)"
      by (intro len [of r "transaction_finding now"]) blast
  next
    fix r assume "analyzeTransaction rt now d = Some r" and "issues r \<noteq> []"
    with core show "parallel (transaction_finding now) r" by blast
  next
    fix r assume "analyzeTransaction rt now d = Some r" and "issues r = []"
    with core show "suggestions r = [next_steps]" by blast
  qed
qed

text \<open>The empty document, on which each evaluator reports every field missing.\<close>

theorem C8_suggestions_parallel_witness:
  "analyzeConfig sample_runtime (JObj []) =
     Some \<lparr>issues = [''Missing organization ID (org_id)'', ''Missing wallet ID (wallet_id)'',
                      ''Missing API public key (api_public_key)'',
                      ''Missing API private key (api_private_key)'',
                      ''Missing base URL (base_url)''],
           suggestions = [fix_org_id, fix_wallet_id, fix_api_public_key, fix_api_private_key,
                          fix_base_url]\<rparr>
   \<and> parallel config_finding
        \<lparr>issues = [''Missing organization ID (org_id)'', ''Missing wallet ID (wallet_id)'',
                    ''Missing API public key (api_public_key)'',
                    ''Missing API private key (api_private_key)'',
                    ''Missing base URL (base_url)''],
         suggestions = [fix_org_id, fix_wallet_id, fix_api_public_key, fix_api_private_key,
                        fix_base_url]\<rparr>
   \<and> analyzePolicy sample_runtime (JObj []) =
       Some \<lparr>issues = [''Missing required_approvals field'',
                        ''No signing keys defined in the policy'',
                        ''No allowed_activities defined in the policy''],
             suggestions = [fix_required_approvals, fix_signing_keys, fix_allowed_activities]\<rparr>
   \<and> parallel policy_finding
        \<lparr>issues = [''Missing required_approvals field'',
                    ''No signing keys defined in the policy'',
                    ''No allowed_activities defined in the policy''],
         suggestions = [fix_required_approvals, fix_signing_keys, fix_allowed_activities]\<rparr>
   \<and> analyzeTransaction sample_runtime 0 (JObj []) =
       Some \<lparr>issues = [''Missing organizationId field'', ''Missing type field'',
                        ''Missing timestampMs field'', ''Missing parameters object''],
             suggestions = [fix_organizationId, fix_type, fix_timestampMs ''0'',
                            fix_parameters]\<rparr>
   \<and> parallel (transaction_finding 0)
        \<lparr>issues = [''Missing organizationId field'', ''Missing type field'',
                    ''Missing timestampMs field'', ''Missing parameters object''],
         suggestions = [fix_organizationId, fix_type, fix_timestampMs ''0'', fix_parameters]\<rparr>"
proof -
  have c: "analyzeConfig sample_runtime (JObj []) =
     Some \<lparr>issues = [''Missing organization ID (org_id)'', ''Missing wallet ID (wallet_id)'',
                      ''Missing API public key (api_public_key)'',
                      ''Missing API private key (api_private_key)'',
                      ''Missing base URL (base_url)''],
           suggestions = [fix_org_id, fix_wallet_id, fix_api_public_key, fix_api_private_key,
                          fix_base_url]\<rparr>"
    by (simp add: config_defs result_defs own_def)
  have p: "analyzePolicy sample_runtime (JObj []) =
       Some \<lparr>issues = [''Missing required_approvals field'',
                        ''No signing keys defined in the policy'',
                        ''No allowed_activities defined in the policy''],
             suggestions = [fix_required_approvals, fix_signing_keys, fix_allowed_activities]\<rparr>"
    by (simp add: policy_defs result_defs own_def)
  have t: "analyzeTransaction sample_runtime 0 (JObj []) =
       Some \<lparr>issues = [''Missing organizationId field'', ''Missing type field'',
                        ''Missing timestampMs field'', ''Missing parameters object''],
             suggestions = [fix_organizationId, fix_type, fix_timestampMs ''0'',
                            fix_parameters]\<rparr>"
    by (simp add: transaction_defs result_defs own_def show_int_def show_nat.simps digit_char_def)
  have s: "is_simplified (JObj []) = Some False" by (simp add: is_simplified_def)
  from C8_suggestions_parallel_to_issues [of sample_runtime "JObj []" 0] c p t s
  show ?thesis by simp
qed

text \<open>
  C9. A field that is present but equal to the empty string is reported as missing. For
  every config document whose \<^verbatim>\<open>org_id\<close> is the empty string, every result of
  \<^verbatim>\<open>analyzeConfig\<close> has the issue \<^verbatim>\<open>Missing organization ID (org_id)\<close>. For every
  simplified policy whose \<^verbatim>\<open>effect\<close> is the empty string, every result of
  \<^verbatim>\<open>analyzeSimplifiedPolicy\<close> has the issue \<^verbatim>\<open>Missing effect field\<close> and no
  invalid-effect issue. In both cases there is a result when the other fields have
  their types. \<^verbatim>\<open>required_approvals\<close> is compared with \<^verbatim>\<open>undefined\<close> instead: on
  the structured path the value 0 counts as present, and is reported as too small, not
  as missing.
\<close>

theorem C9_empty_string_is_missing:
  "(field config ''org_id'' = JStr [] \<longrightarrow>
      (typed_config config \<longrightarrow> (\<exists>r. analyzeConfig rt config = Some r))
      \<and> (\<forall>r. analyzeConfig rt config = Some r \<longrightarrow>
             ''Missing organization ID (org_id)'' \<in> set (issues r)))
   \<and> (field policy ''effect'' = JStr [] \<longrightarrow>
      (is_object policy \<and> string_or_falsy (field policy ''condition'') \<longrightarrow>
         (\<exists>r. analyzeSimplifiedPolicy rt policy = Some r))
      \<and> (\<forall>r. analyzeSimplifiedPolicy rt policy = Some r \<longrightarrow>
             ''Missing effect field'' \<in> set (issues r)
             \<and> (\<forall>shown. issue_effect_value shown \<notin> set (issues r))))
   \<and> (is_simplified structured = Some False
       \<and> field structured ''required_approvals'' = JNum (Fin 0) \<longrightarrow>
      (\<forall>r. analyzePolicy rt structured = Some r \<longrightarrow>
         ''required_approvals must be at least 1'' \<in> set (issues r)
         \<and> ''Missing required_approvals field'' \<notin> set (issues r)))"
proof (intro conjI impI allI)
  assume "typed_config config"
  then show "\<exists>r. analyzeConfig rt config = Some r" by (rule typed_config_returns)
next
  fix r assume "field config ''org_id'' = JStr []" and "analyzeConfig rt config = Some r"
  then show "''Missing organization ID (org_id)'' \<in> set (issues r)"
    by (rule config_org_id_empty)
next
  assume "field policy ''effect'' = JStr []"
    and "is_object policy \<and> string_or_falsy (field policy ''condition'')"
  then show "\<exists>r. analyzeSimplifiedPolicy rt policy = Some r"
    by (intro simplified_returns) simp_all
next
  fix r assume "field policy ''effect'' = JStr []" and "analyzeSimplifiedPolicy rt policy = Some r"
  from simplified_effect_empty [OF this]
  show "''Missing effect field'' \<in> set (issues r)" by simp
next
  fix r shown
  assume "field policy ''effect'' = JStr []" and "analyzeSimplifiedPolicy rt policy = Some r"
  from simplified_effect_empty [OF this]
  show "issue_effect_value shown \<notin> set (issues r)" by simp
next
  fix r
  assume a: "is_simplified structured = Some False
             \<and> field structured ''required_approvals'' = JNum (Fin 0)"
    and b: "analyzePolicy rt structured = Some r"
  from a b required_approvals_zero [of structured rt r]
  show "''required_approvals must be at least 1'' \<in> set (issues r)"
    and "''Missing required_approvals field'' \<notin> set (issues r)"
    by simp_all
qed

text \<open>
  A config whose \<^verbatim>\<open>org_id\<close> is the empty string, a simplified policy whose
  \<^verbatim>\<open>effect\<close> is, and the policy of \<^verbatim>\<open>tests/check.test.ts\<close> with
  \<^verbatim>\<open>required_approvals\<close> 0.
\<close>

theorem C9_empty_string_witness:
  "field (JObj [(''org_id'', JStr [])]) ''org_id'' = JStr []
   \<and> map_option issues (analyzeConfig sample_runtime (JObj [(''org_id'', JStr [])]))
       = Some [''Missing organization ID (org_id)'', ''Missing wallet ID (wallet_id)'',
               ''Missing API public key (api_public_key)'',
               ''Missing API private key (api_private_key)'', ''Missing base URL (base_url)'']
   \<and> map_option issues
         (analyzeSimplifiedPolicy sample_runtime
            (JObj [(''policyName'', JStr ''p''), (''effect'', JStr []), (''condition'', JStr ''c'')]))
       = Some [''Missing effect field'']
   \<and> map_option issues
         (analyzePolicy sample_runtime
            (JObj [(''required_approvals'', JNum (Fin 0)),
                   (''signing_keys'',
                      JArr [JObj [(''key_id'', JStr ''test-key''), (''name'', JStr ''Test Key''),
                                  (''public_key'', JStr ''test-public-key''),
                                  (''algorithm'', JStr ''ECDSA_SECP256K1'')]]),
                   (''allowed_activities'',
                      JArr [JObj [(''type'', JStr ''SIGN_WITH_INTENT''),
                                  (''resources'', JArr [JStr ''*''])]])]))
       = Some [''required_approvals must be at least 1'',
               ''SIGN_WITH_INTENT activity is missing parameters'']"
proof -
  let ?config = "JObj [(''org_id'', JStr [])]"
  let ?policy = "JObj [(''policyName'', JStr ''p''), (''effect'', JStr []),
                       (''condition'', JStr ''c'')]"
  let ?structured =
    "JObj [(''required_approvals'', JNum (Fin 0)),
           (''signing_keys'',
              JArr [JObj [(''key_id'', JStr ''test-key''), (''name'', JStr ''Test Key''),
                          (''public_key'', JStr ''test-public-key''),
                          (''algorithm'', JStr ''ECDSA_SECP256K1'')]]),
           (''allowed_activities'',
              JArr [JObj [(''type'', JStr ''SIGN_WITH_INTENT''),
                          (''resources'', JArr [JStr ''*''])]])]"
  have c: "map_option issues (analyzeConfig sample_runtime ?config)
       = Some [''Missing organization ID (org_id)'', ''Missing wallet ID (wallet_id)'',
               ''Missing API public key (api_public_key)'',
               ''Missing API private key (api_private_key)'', ''Missing base URL (base_url)'']"
    by (simp add: config_defs result_defs own_def)
  have p: "map_option issues (analyzeSimplifiedPolicy sample_runtime ?policy)
       = Some [''Missing effect field'']"
    by (simp add: policy_defs result_defs own_def)
  have s: "map_option issues (analyzePolicy sample_runtime ?structured)
       = Some [''required_approvals must be at least 1'',
               ''SIGN_WITH_INTENT activity is missing parameters'']"
    by (simp add: policy_defs result_defs own_def show_nat.simps digit_char_def)
  from C9_empty_string_is_missing [of ?config sample_runtime ?policy ?structured] c p s
  show ?thesis by (simp add: own_def)
qed

text \<open>
  C10. Whenever \<^verbatim>\<open>checkConfig\<close> gets a result from an evaluator: the evaluator was
  \<^verbatim>\<open>analyzeTransaction\<close> exactly when the \<^verbatim>\<open>type\<close> field of the document equals
  \<^verbatim>\<open>ACTIVITY_TYPE_SIGN_TRANSACTION_V2\<close>; on such a document the statement of lines
  18-24 of \<^verbatim>\<open>transaction.ts\<close> leaves the result as it was, taking neither branch;
  and no issue of the result, whichever evaluator returned it, is an
  \<^verbatim>\<open>Unsupported transaction type\<close> issue.
\<close>

theorem C10_unsupported_type_unreachable:
  assumes "checkConfig rt now data = Some (ft, r)"
  shows "(ft = Transaction \<longleftrightarrow>
            field data ''type'' = JStr ''ACTIVITY_TYPE_SIGN_TRANSACTION_V2'')
         \<and> (ft = Transaction \<longrightarrow>
              analyzeTransaction rt now data = Some r
              \<and> (\<forall>r'. transaction_type rt data r' = Some r'))
         \<and> (\<forall>shown. issue_type_value shown \<notin> set (issues r))"
proof -
  from assms obtain d: "detect_fileType data = Some ft"
    and e: "(case ft of Transaction \<Rightarrow> analyzeTransaction rt now data
             | Policy \<Rightarrow> analyzePolicy rt data | Config \<Rightarrow> analyzeConfig rt data) = Some r"
    by (auto simp: checkConfig_def split: bind_splits)
  show ?thesis
  proof (cases ft)
    case Transaction
    with d have t: "field data ''type'' = JStr ''ACTIVITY_TYPE_SIGN_TRANSACTION_V2''"
      by (simp add: is_transaction_type detect_Transaction)
    from d Transaction have n: "\<not> nullish data"
      by (cases data) (auto simp: detect_fileType_def is_transaction_def)
    from e Transaction have a: "analyzeTransaction rt now data = Some r" by simp
    have "transaction_type rt data r' = Some r'" for r'
      using t n by (simp add: transaction_type_def get_prop_def)
    with Transaction t a sentinel_transaction_issues [OF t a] show ?thesis by simp
  next
    case Policy
    with d have "is_transaction data = Some False"
      by (auto simp: detect_fileType_def split: bind_splits if_splits)
    then have t: "field data ''type'' \<noteq> JStr ''ACTIVITY_TYPE_SIGN_TRANSACTION_V2''"
      by (cases data)
         (auto simp: is_transaction_def own_eq_JStr dest: map_of_Some_key split: if_splits)
    from e Policy have "analyzePolicy rt data = Some r" by simp
    from policy_issues_not_type_value [OF this] Policy t show ?thesis by simp
  next
    case Config
    with d have "is_transaction data = Some False"
      by (auto simp: detect_fileType_def split: bind_splits if_splits)
    then have t: "field data ''type'' \<noteq> JStr ''ACTIVITY_TYPE_SIGN_TRANSACTION_V2''"
      by (cases data)
         (auto simp: is_transaction_def own_eq_JStr dest: map_of_Some_key split: if_splits)
    from e Config have "analyzeConfig rt data = Some r" by simp
    from config_issues_not_type_value [OF this] Config t show ?thesis by simp
  qed
qed


text \<open>A signing request without \<^verbatim>\<open>parameters\<close>, through the pipeline.\<close>

theorem C10_unsupported_type_witness:
  "checkConfig sample_runtime 0
     (JObj [(''organizationId'', JStr ''o''),
            (''type'', JStr ''ACTIVITY_TYPE_SIGN_TRANSACTION_V2''),
            (''timestampMs'', JStr ''1'')])
   = Some (Transaction,
           \<lparr>issues = [''Missing parameters object''], suggestions = [fix_parameters]\<rparr>)
   \<and> issue_type_value ''ACTIVITY_TYPE_SIGN_TRANSACTION_V2''
       \<notin> set (issues \<lparr>issues = [''Missing parameters object''],
                           suggestions = [fix_parameters]\<rparr>)"
proof -
  let ?d = "JObj [(''organizationId'', JStr ''o''),
                  (''type'', JStr ''ACTIVITY_TYPE_SIGN_TRANSACTION_V2''),
                  (''timestampMs'', JStr ''1'')]"
  have ft: "detect_fileType ?d = Some Transaction"
    by (simp add: detect_fileType_obj spec_fileType_def)
  have run: "analyzeTransaction sample_runtime 0 ?d
             = Some \<lparr>issues = [''Missing parameters object''], suggestions = [fix_parameters]\<rparr>"
    by (simp add: transaction_defs result_defs own_def)
  have c: "checkConfig sample_runtime 0 ?d
           = Some (Transaction,
                   \<lparr>issues = [''Missing parameters object''], suggestions = [fix_parameters]\<rparr>)"
    by (simp add: checkConfig_def ft run)
  from C10_unsupported_type_unreachable [OF c] c show ?thesis by blast
qed

end
